theory Spec2Isabelle
  imports Main "HOL-Library.Word"
begin

section \<open>Data model\<close>

text \<open>
  The texturing front end \<^verbatim>\<open>apps/texrecon/texrecon.cpp\<close> moves raw buffers around with
  \<^verbatim>\<open>memcpy\<close>. A \<^verbatim>\<open>float\<close> is therefore kept as its 32-bit pattern, an \<^verbatim>\<open>int\<close> and an
  \<^verbatim>\<open>unsigned int\<close> as a 32-bit word (read with \<open>sint\<close> or \<open>unat\<close> at the place of use),
  a \<^verbatim>\<open>std::size_t\<close> that takes part in arithmetic as a 64-bit word, and a byte as an
  8-bit word. Vector sizes and labels, which are only compared, are natural numbers.
\<close>

type_synonym u8 = "8 word"
type_synonym i32 = "32 word"
type_synonym u32 = "32 word"
type_synonym f32 = "32 word"
type_synonym size_t = "64 word"

type_synonym vec3 = "f32 \<times> f32 \<times> f32"
type_synonym vec2 = "f32 \<times> f32"
type_synonym ivec3 = "i32 \<times> i32 \<times> i32"

text \<open>
  Modelled from the spec: \<^verbatim>\<open>mve::TriangleMesh\<close> is declared outside this source file. It
  holds vertex positions, vertex normals and face index triples; \<^verbatim>\<open>get_vertices()\<close>,
  \<^verbatim>\<open>get_vertex_normals()\<close> and \<^verbatim>\<open>get_faces()\<close> give the three vectors, the last one flat,
  of \<^verbatim>\<open>unsigned int\<close>.
\<close>

record mesh =
  mesh_vertices :: "vec3 list"
  mesh_normals :: "vec3 list"
  mesh_faces :: "u32 list"

text \<open>
  Modelled from the spec: the class of the atlas image is declared outside this source
  file. It is a raster with its dimensions; \<open>width\<close> and \<open>height\<close> are taken at type
  \<^verbatim>\<open>int\<close>, the type of the out-parameters they are assigned to, and \<open>image_data\<close> is the
  byte block behind \<^verbatim>\<open>get_data_pointer()\<close>.
\<close>

record image =
  width :: i32
  height :: i32
  image_data :: "u8 list"

text \<open>
  Modelled from the spec: \<^verbatim>\<open>TextureAtlas\<close> is declared outside this source file. It owns
  the packed image, the indices of the mesh faces it contains, its local texture
  coordinates and, three per face, the indices of the corners' texture coordinates; the
  two index vectors hold \<^verbatim>\<open>std::size_t\<close>.
\<close>

record texture_atlas =
  atlas_image :: image
  atlas_faces :: "size_t list"
  atlas_texcoords :: "vec2 list"
  atlas_texcoord_ids :: "size_t list"

text \<open>The output parameters of \<^verbatim>\<open>build_model\<close> and \<^verbatim>\<open>reconstructTexture\<close>.\<close>

record buffers =
  points :: "vec3 list"
  normals :: "vec3 list"
  texCoords :: "vec2 list"
  triangles :: "ivec3 list"
  textureWidth :: i32
  textureHeight :: i32
  textureData :: "u8 list"

text \<open>
  What C++ leaves undefined, or ends with an exception nobody catches, is a value of the
  model: a signed overflow of an \<^verbatim>\<open>int\<close>, a \<^verbatim>\<open>resize\<close> to a size no vector can have, and
  each read or write outside the array it addresses.
\<close>

datatype fault =
  IntOverflow
  | LengthError
  | ImageReadOOB
  | MeshFacesReadOOB
  | TexcoordIdsReadOOB
  | MapWriteOOB
  | VerticesReadOOB
  | NormalsReadOOB

definition INT_MAX :: int where
  "INT_MAX = 2147483647"

definition INT_MIN :: int where
  "INT_MIN = - 2147483648"

definition fits_int :: "int \<Rightarrow> bool" where
  "fits_int x = (INT_MIN \<le> x \<and> x \<le> INT_MAX)"

section \<open>The atlas consolidator \<^verbatim>\<open>build_model\<close>\<close>

text \<open>
  Lines 244 to 247: the texture dimensions, the \<^verbatim>\<open>int\<close> product
  \<^verbatim>\<open>textureWidth * textureHeight * 3\<close>, the \<^verbatim>\<open>resize\<close> to it and the \<^verbatim>\<open>memcpy\<close> of that many
  bytes from the image.
\<close>

definition copy_texture :: "image \<Rightarrow> fault + (i32 \<times> i32 \<times> u8 list)" where
  "copy_texture img =
     (let w = sint (width img); h = sint (height img) in
      if \<not> fits_int (w * h) then Inl IntOverflow
      else if \<not> fits_int (w * h * 3) then Inl IntOverflow
      else if w * h * 3 < 0 then Inl LengthError
      else if length (image_data img) < nat (w * h * 3) then Inl ImageReadOOB
      else Inr (width img, height img, take (nat (w * h * 3)) (image_data img)))"

text \<open>
  Line 260: the three vertex indices of mesh face \<open>f\<close>, copied from
  \<^verbatim>\<open>mesh_faces.data() + f * 3\<close>; the product is a \<^verbatim>\<open>size_t\<close> and wraps.
\<close>

definition read_face :: "u32 list \<Rightarrow> size_t \<Rightarrow> fault + ivec3" where
  "read_face mf f =
     (let k = unat (f * 3) in
      if length mf < k + 3 then Inl MeshFacesReadOOB
      else Inr (mf ! k, mf ! (k + 1), mf ! (k + 2)))"

text \<open>
  Line 263: \<^verbatim>\<open>atlas_texcoord_ids.data()[i * 3 + j]\<close>, the index computed in \<^verbatim>\<open>int\<close>, the
  \<^verbatim>\<open>size_t\<close> read narrowed to the \<^verbatim>\<open>int\<close> component of the triangle.
\<close>

definition read_id :: "size_t list \<Rightarrow> int \<Rightarrow> int \<Rightarrow> fault + i32" where
  "read_id ids i j =
     (if \<not> fits_int (i * 3 + j) then Inl IntOverflow
      else if length ids \<le> nat (i * 3 + j) then Inl TexcoordIdsReadOOB
      else Inr (ucast (ids ! nat (i * 3 + j))))"

definition read_ids :: "size_t list \<Rightarrow> int \<Rightarrow> fault + ivec3" where
  "read_ids ids i =
     (case read_id ids i 0 of Inl e \<Rightarrow> Inl e | Inr a \<Rightarrow>
      (case read_id ids i 1 of Inl e \<Rightarrow> Inl e | Inr b \<Rightarrow>
       (case read_id ids i 2 of Inl e \<Rightarrow> Inl e | Inr c \<Rightarrow> Inr (a, b, c))))"

text \<open>
  Lines 258 to 264, the loop over the atlas faces with its \<^verbatim>\<open>int\<close> counter \<open>i\<close>. It
  fills \<^verbatim>\<open>vertexIndices\<close> (first component) and \<^verbatim>\<open>triangles\<close> (second component).
\<close>

fun fetch_corners ::
  "u32 list \<Rightarrow> size_t list \<Rightarrow> int \<Rightarrow> size_t list \<Rightarrow> fault + (ivec3 list \<times> ivec3 list)" where
  "fetch_corners mf ids i [] = Inr ([], [])"
| "fetch_corners mf ids i (f # fs) =
     (case read_face mf f of Inl e \<Rightarrow> Inl e | Inr v \<Rightarrow>
      (case read_ids ids i of Inl e \<Rightarrow> Inl e | Inr t \<Rightarrow>
       if i = INT_MAX then Inl IntOverflow
       else (case fetch_corners mf ids (i + 1) fs of Inl e \<Rightarrow> Inl e
             | Inr (vs, ts) \<Rightarrow> Inr (v # vs, t # ts))))"

text \<open>
  Line 268: \<^verbatim>\<open>texCoordVertexIndices[t] = v\<close>. The \<^verbatim>\<open>int\<close> \<open>t\<close> becomes the \<^verbatim>\<open>size_t\<close>
  argument of \<^verbatim>\<open>operator[]\<close>; a negative one is far outside every vector.
\<close>

definition set_map :: "i32 list \<Rightarrow> i32 \<Rightarrow> i32 \<Rightarrow> fault + i32 list" where
  "set_map m t v =
     (if 0 \<le> sint t \<and> nat (sint t) < length m then Inr (m[nat (sint t) := v])
      else Inl MapWriteOOB)"

definition set_corners :: "i32 list \<Rightarrow> ivec3 \<Rightarrow> ivec3 \<Rightarrow> fault + i32 list" where
  "set_corners m t v =
     (case t of (t0, t1, t2) \<Rightarrow> (case v of (v0, v1, v2) \<Rightarrow>
      (case set_map m t0 v0 of Inl e \<Rightarrow> Inl e | Inr m0 \<Rightarrow>
       (case set_map m0 t1 v1 of Inl e \<Rightarrow> Inl e | Inr m1 \<Rightarrow> set_map m1 t2 v2))))"

text \<open>
  Lines 266 to 268, the loop over \<^verbatim>\<open>triangles\<close> (paired with \<^verbatim>\<open>vertexIndices\<close>, which
  has the same size) that fills the map \<^verbatim>\<open>texCoordVertexIndices\<close>.
\<close>

fun build_map :: "i32 list \<Rightarrow> int \<Rightarrow> (ivec3 \<times> ivec3) list \<Rightarrow> fault + i32 list" where
  "build_map m i [] = Inr m"
| "build_map m i ((t, v) # cs) =
     (case set_corners m t v of Inl e \<Rightarrow> Inl e | Inr m' \<Rightarrow>
      if i = INT_MAX then Inl IntOverflow else build_map m' (i + 1) cs)"

text \<open>
  Lines 270 to 271 and 273 to 274: one element copied from \<^verbatim>\<open>src.data() + k\<close> for every
  entry \<open>k\<close> of the map, \<open>k\<close> an \<^verbatim>\<open>int\<close>. The first argument is the fault of a read outside
  \<open>src\<close>.
\<close>

fun gather :: "fault \<Rightarrow> vec3 list \<Rightarrow> int \<Rightarrow> i32 list \<Rightarrow> fault + vec3 list" where
  "gather e src i [] = Inr []"
| "gather e src i (k # ks) =
     (if 0 \<le> sint k \<and> nat (sint k) < length src then
        (if i = INT_MAX then Inl IntOverflow
         else (case gather e src (i + 1) ks of Inl x \<Rightarrow> Inl x
               | Inr ps \<Rightarrow> Inr (src ! nat (sint k) # ps)))
      else Inl e)"

text \<open>
  \<^verbatim>\<open>build_model\<close>, lines 227 to 276. The third argument is the contents of the output
  parameters on entry. With an empty atlas list the body of the \<^verbatim>\<open>if\<close> is skipped.
\<close>

definition build_model :: "mesh \<Rightarrow> texture_atlas list \<Rightarrow> buffers \<Rightarrow> fault + buffers" where
  "build_model mesh texture_atlases out =
     (case texture_atlases of
        [] \<Rightarrow> Inr out
      | texture_atlas # _ \<Rightarrow>
         (case copy_texture (atlas_image texture_atlas) of Inl e \<Rightarrow> Inl e
          | Inr (w, h, td) \<Rightarrow>
          (case fetch_corners (mesh_faces mesh) (atlas_texcoord_ids texture_atlas) 0
                  (atlas_faces texture_atlas) of Inl e \<Rightarrow> Inl e
           | Inr (vertexIndices, tris) \<Rightarrow>
           (case build_map (replicate (length (atlas_texcoords texture_atlas)) 0) 0
                   (zip tris vertexIndices) of Inl e \<Rightarrow> Inl e
            | Inr texCoordVertexIndices \<Rightarrow>
            (case gather VerticesReadOOB (mesh_vertices mesh) 0 texCoordVertexIndices of
               Inl e \<Rightarrow> Inl e
             | Inr ps \<Rightarrow>
             (case gather NormalsReadOOB (mesh_normals mesh) 0 texCoordVertexIndices of
                Inl e \<Rightarrow> Inl e
              | Inr ns \<Rightarrow>
                Inr \<lparr>points = ps, normals = ns,
                     texCoords = atlas_texcoords texture_atlas, triangles = tris,
                     textureWidth = w, textureHeight = h, textureData = td\<rparr>))))))"

section \<open>The labeling override path\<close>

text \<open>
  Modelled from the spec: \<^verbatim>\<open>tex::Graph\<close> is declared outside this source file. The spec
  gives it one node per face, a mutable label per node, with 0, the label of a fresh
  graph, for an unlabeled face, and the adjacency that \<^verbatim>\<open>build_adjacency_graph\<close> fills.
\<close>

record graph =
  labels :: "nat list"
  edges :: "(nat \<times> nat) list"

text \<open>Modelled from the spec: the constructor, a graph of \<open>n\<close> unlabeled nodes.\<close>

definition Graph :: "nat \<Rightarrow> graph" where
  "Graph n = \<lparr>labels = replicate n 0, edges = []\<rparr>"

text \<open>Modelled from the spec: \<^verbatim>\<open>num_nodes()\<close>, the number of nodes.\<close>

definition num_nodes :: "graph \<Rightarrow> nat" where
  "num_nodes g = length (labels g)"

text \<open>Modelled from the spec: \<^verbatim>\<open>set_label(i, label)\<close> writes the label of node \<open>i\<close>.\<close>

definition set_label :: "nat \<Rightarrow> nat \<Rightarrow> graph \<Rightarrow> graph" where
  "set_label i label g = g\<lparr>labels := (labels g)[i := label]\<rparr>"

text \<open>
  The outcome of the override block: the mismatch that both entry points report with
  the same message, or the end of the transfer loop; each with the graph as it is at that
  moment.
\<close>

datatype labeling_outcome = Mismatch graph | Transferred graph

text \<open>
  Lines 130 to 137 and 380 to 385, the transfer loop at index \<open>i\<close> over the remaining
  entries; \<open>K\<close> is \<^verbatim>\<open>texture_views.size()\<close>.
\<close>

fun transfer_labeling :: "nat \<Rightarrow> nat \<Rightarrow> nat list \<Rightarrow> graph \<Rightarrow> labeling_outcome" where
  "transfer_labeling K i [] g = Transferred g"
| "transfer_labeling K i (label # rest) g =
     (if K < label then Mismatch g
      else transfer_labeling K (i + 1) rest (set_label i label g))"

text \<open>Lines 124 to 137 and 376 to 385: the size check, then the loop.\<close>

definition load_labeling :: "nat \<Rightarrow> nat list \<Rightarrow> graph \<Rightarrow> labeling_outcome" where
  "load_labeling K labeling g =
     (if length labeling \<noteq> num_nodes g then Mismatch g
      else transfer_labeling K 0 labeling g)"

definition newline :: char where
  "newline = CHR 0x0A"

definition wrong_labeling :: string where
  "wrong_labeling = ''Wrong labeling file for this mesh/scene combination... aborting!''"

text \<open>
  The block in \<^verbatim>\<open>main\<close> (lines 123 to 137): a mismatch prints the message to the error
  stream and ends the process with \<^verbatim>\<open>EXIT_FAILURE\<close>.
\<close>

datatype 'a cli = ExitFailure string | Continues 'a

definition main_load_labeling :: "nat \<Rightarrow> nat list \<Rightarrow> graph \<Rightarrow> graph cli" where
  "main_load_labeling K labeling g =
     (case load_labeling K labeling g of
        Mismatch _ \<Rightarrow> ExitFailure (wrong_labeling @ [newline])
      | Transferred g' \<Rightarrow> Continues g')"

section \<open>The library entry point \<^verbatim>\<open>reconstructTexture\<close>\<close>

text \<open>
  Modelled from the spec: \<^verbatim>\<open>Arguments\<close> and \<^verbatim>\<open>tex::Settings\<close> are declared outside this
  source file. These are the options that the spec lists and that \<^verbatim>\<open>reconstructTexture\<close>
  reads or writes. What the default constructor puts into them is not known here, so the
  default-constructed value is an argument of the model.
\<close>

record settings =
  global_seam_leveling :: bool
  local_seam_leveling :: bool

record arguments =
  out_prefix :: string
  data_cost_file :: string
  labeling_file :: string
  conf_settings :: settings
  write_timings :: bool
  write_intermediate_results :: bool
  write_view_selection_model :: bool

text \<open>The image and camera parameters, which only \<^verbatim>\<open>generate_texture_views\<close> reads.\<close>

record views_input =
  view_width :: i32
  view_height :: i32
  imagesData :: "u8 list list"
  camerasIntrinsic :: "f32 list list"
  camerasExtrinsic :: "f32 list list"

text \<open>
  The stages of the \<^verbatim>\<open>tex\<close> library, which are outside this source file, are arguments
  of the model. Their intermediate data (\<^verbatim>\<open>MeshInfo\<close>, texture views, data costs, texture
  patches, vertex projection infos) are type variables. A stage that receives a pointer
  to an object returns the object's new value; \<open>tex_load_from_file\<close> returns the message
  of the \<^verbatim>\<open>util::FileException\<close> it throws as \<open>Inl\<close>. Any other exception of a stage
  is caught nowhere in \<^verbatim>\<open>reconstructTexture\<close> and is outside the model.
\<close>

record ('mi, 'tv, 'dc, 'tp, 'vpi) externals =
  mesh_info_init :: "mesh \<Rightarrow> 'mi"
  tex_prepare_mesh :: "'mi \<Rightarrow> mesh \<Rightarrow> 'mi \<times> mesh"
  tex_generate_texture_views :: "views_input \<Rightarrow> 'tv list"
  tex_build_adjacency_graph :: "mesh \<Rightarrow> 'mi \<Rightarrow> graph \<Rightarrow> graph"
  data_costs_init :: "nat \<Rightarrow> nat \<Rightarrow> 'dc"
  tex_calculate_data_costs :: "mesh \<Rightarrow> 'tv list \<Rightarrow> settings \<Rightarrow> 'dc \<Rightarrow> 'tv list \<times> 'dc"
  tex_load_from_file :: "string \<Rightarrow> 'dc \<Rightarrow> string + 'dc"
  tex_view_selection :: "'dc \<Rightarrow> graph \<Rightarrow> settings \<Rightarrow> graph"
  vector_from_file :: "string \<Rightarrow> nat list"
  tex_generate_texture_patches ::
    "graph \<Rightarrow> mesh \<Rightarrow> 'mi \<Rightarrow> 'tv list \<Rightarrow> settings \<Rightarrow> 'tv list \<times> 'vpi \<times> 'tp list"
  tex_global_seam_leveling :: "graph \<Rightarrow> mesh \<Rightarrow> 'mi \<Rightarrow> 'vpi \<Rightarrow> 'tp list \<Rightarrow> 'tp list"
  patch_faces_size :: "'tp \<Rightarrow> nat"
  adjust_colors :: "'tp \<Rightarrow> vec3 list \<Rightarrow> 'tp"
  tex_local_seam_leveling :: "graph \<Rightarrow> mesh \<Rightarrow> 'vpi \<Rightarrow> 'tp list \<Rightarrow> 'tp list"
  tex_generate_texture_atlases :: "'tp list \<Rightarrow> settings \<Rightarrow> texture_atlas list"

text \<open>
  Lines 309 to 315: the internal mesh, a copy of the three buffers that are also the
  output parameters; a triangle becomes three consecutive face indices.
\<close>

definition copy_mesh :: "buffers \<Rightarrow> mesh" where
  "copy_mesh io =
     \<lparr>mesh_vertices = points io, mesh_normals = normals io,
      mesh_faces = concat (map (\<lambda>(a, b, c). [a, b, c]) (triangles io))\<rparr>"

text \<open>
  Lines 332 to 388: the labels come from view selection, or from the labeling file.
  \<open>Inl\<close> is the string of an early \<^verbatim>\<open>return\<close>. The blocks under
  \<^verbatim>\<open>write_intermediate_results\<close> only write files and are left out.
\<close>

definition resolve_labeling ::
  "('mi, 'tv, 'dc, 'tp, 'vpi) externals \<Rightarrow> arguments \<Rightarrow> mesh \<Rightarrow> 'tv list \<Rightarrow> nat \<Rightarrow> graph
     \<Rightarrow> string + ('tv list \<times> graph)" where
  "resolve_labeling ext conf mesh texture_views num_faces g =
     (if labeling_file conf = [] then
        (let data_costs = data_costs_init ext num_faces (length texture_views) in
         case (if data_cost_file conf = [] then
                 Inr (tex_calculate_data_costs ext mesh texture_views (conf_settings conf)
                        data_costs)
               else (case tex_load_from_file ext (data_cost_file conf) data_costs of
                       Inl what \<Rightarrow> Inl (''failed!'' @ [newline] @ what @ [newline])
                     | Inr dc \<Rightarrow> Inr (texture_views, dc)))
         of Inl msg \<Rightarrow> Inl msg
          | Inr (tvs, dc) \<Rightarrow> Inr (tvs, tex_view_selection ext dc g (conf_settings conf)))
      else
        (case load_labeling (length texture_views)
                (vector_from_file ext (labeling_file conf)) g of
           Mismatch _ \<Rightarrow> Inl (wrong_labeling @ [newline] @ [newline])
         | Transferred g' \<Rightarrow> Inr (texture_views, g')))"

text \<open>
  Lines 390 to 430: patches, seam leveling and atlas generation. The loop of lines 408 to
  417 treats every patch on its own, with a zero adjustment for each face corner.
\<close>

definition make_atlases ::
  "('mi, 'tv, 'dc, 'tp, 'vpi) externals \<Rightarrow> arguments \<Rightarrow> graph \<Rightarrow> mesh \<Rightarrow> 'mi \<Rightarrow> 'tv list
     \<Rightarrow> texture_atlas list" where
  "make_atlases ext conf g mesh mesh_info texture_views =
     (case tex_generate_texture_patches ext g mesh mesh_info texture_views
             (conf_settings conf) of
        (tvs, vertex_projection_infos, texture_patches) \<Rightarrow>
          (let leveled =
                 (if global_seam_leveling (conf_settings conf) then
                    tex_global_seam_leveling ext g mesh mesh_info vertex_projection_infos
                      texture_patches
                  else
                    map (\<lambda>p. adjust_colors ext p
                               (replicate (patch_faces_size ext p * 3) (0, 0, 0)))
                      texture_patches);
               adjusted =
                 (if local_seam_leveling (conf_settings conf) then
                    tex_local_seam_leveling ext g mesh vertex_projection_infos leveled
                  else leveled)
           in tex_generate_texture_atlases ext adjusted (conf_settings conf)))"

text \<open>
  Lines 299 to 430, everything before the call of \<^verbatim>\<open>build_model\<close>: the string of an early
  \<^verbatim>\<open>return\<close>, or the prepared mesh and the atlases.
\<close>

definition run_stages ::
  "('mi, 'tv, 'dc, 'tp, 'vpi) externals \<Rightarrow> arguments \<Rightarrow> views_input \<Rightarrow> buffers
     \<Rightarrow> string + (mesh \<times> texture_atlas list)" where
  "run_stages ext conf0 inp io =
     (let conf = conf0\<lparr>out_prefix := ''textured'', write_timings := False,
                       write_intermediate_results := False,
                       write_view_selection_model := False\<rparr>
      in case tex_prepare_mesh ext (mesh_info_init ext (copy_mesh io)) (copy_mesh io) of
        (mesh_info, mesh) \<Rightarrow>
          (let texture_views = tex_generate_texture_views ext inp;
               num_faces = length (mesh_faces mesh) div 3;
               g = tex_build_adjacency_graph ext mesh mesh_info (Graph num_faces)
           in case resolve_labeling ext conf mesh texture_views num_faces g of
                Inl msg \<Rightarrow> Inl msg
              | Inr (tvs, g') \<Rightarrow> Inr (mesh, make_atlases ext conf g' mesh mesh_info tvs)))"

text \<open>
  \<^verbatim>\<open>reconstructTexture\<close>, lines 278 to 469. The last argument is the contents of the seven
  in/out parameters on entry; the result is the returned string and their contents on
  return. Line 306 clears \<^verbatim>\<open>write_view_selection_model\<close>, so the block of lines 446 to 466
  is not run.
\<close>

definition reconstructTexture ::
  "('mi, 'tv, 'dc, 'tp, 'vpi) externals \<Rightarrow> arguments \<Rightarrow> views_input \<Rightarrow> buffers
     \<Rightarrow> fault + (string \<times> buffers)" where
  "reconstructTexture ext conf0 inp io =
     (case run_stages ext conf0 inp io of
        Inl msg \<Rightarrow> Inr (msg, io)
      | Inr (mesh, texture_atlases) \<Rightarrow>
          (case build_model mesh texture_atlases io of
             Inl f \<Rightarrow> Inl f
           | Inr out \<Rightarrow> Inr ([], out)))"

section \<open>The corner pairings, as the specification words them\<close>

text \<open>
  The specification (section 4.4, steps 4 to 6) describes the vertex data of the
  consolidated model without the loops: every corner \<open>j\<close> of the \<open>i\<close>-th atlas face pairs
  an original vertex index with an atlas texture coordinate index, these pairings give a
  map from texture coordinate indices to vertex indices, and an output vertex takes its
  position and normal from the mesh through that map. The definitions below follow
  these words; the theorems compare them with \<open>build_model\<close>.

  \<open>as_index\<close> reads an \<^verbatim>\<open>int\<close> of the code as the index it stands for.
\<close>

definition as_index :: "i32 \<Rightarrow> nat" where
  "as_index x = nat (sint x)"

definition corner_vertex :: "mesh \<Rightarrow> texture_atlas \<Rightarrow> nat \<Rightarrow> nat \<Rightarrow> i32" where
  "corner_vertex mesh a i j = mesh_faces mesh ! (unat (atlas_faces a ! i * 3) + j)"

definition corner_texcoord :: "texture_atlas \<Rightarrow> nat \<Rightarrow> nat \<Rightarrow> i32" where
  "corner_texcoord a i j = ucast (atlas_texcoord_ids a ! (i * 3 + j))"

definition corner_pairs :: "mesh \<Rightarrow> texture_atlas \<Rightarrow> (nat \<times> nat) list" where
  "corner_pairs mesh a =
     concat (map (\<lambda>i. map (\<lambda>j. (as_index (corner_vertex mesh a i j),
                                  as_index (corner_texcoord a i j))) [0, 1, 2])
               [0..<length (atlas_faces a)])"

text \<open>
  The map of step 5: the vertex index of the last pairing that names texture coordinate
  index \<open>t\<close>, and 0 when no pairing names it.
\<close>

definition texcoord_vertex :: "(nat \<times> nat) list \<Rightarrow> nat \<Rightarrow> nat" where
  "texcoord_vertex ps t =
     (case find (\<lambda>p. snd p = t) (rev ps) of None \<Rightarrow> 0 | Some p \<Rightarrow> fst p)"

text \<open>A vertex index of the code, an \<^verbatim>\<open>int\<close>, that addresses a position and a normal.\<close>

definition valid_vertex_index :: "mesh \<Rightarrow> i32 \<Rightarrow> bool" where
  "valid_vertex_index mesh x =
     (0 \<le> sint x \<and> nat (sint x) < length (mesh_vertices mesh)
        \<and> nat (sint x) < length (mesh_normals mesh))"

text \<open>
  The writes of the map loop in their order, as pairs of the index written and the value,
  and one such write.
\<close>

definition flat_corners :: "(ivec3 \<times> ivec3) list \<Rightarrow> (i32 \<times> i32) list" where
  "flat_corners cs =
     concat (map (\<lambda>(t, v). (case t of (t0, t1, t2) \<Rightarrow> (case v of (v0, v1, v2) \<Rightarrow>
       [(t0, v0), (t1, v1), (t2, v2)]))) cs)"

definition put :: "(i32 \<times> i32) \<Rightarrow> i32 list \<Rightarrow> i32 list" where
  "put p m = m[nat (sint (fst p)) := snd p]"

text \<open>
  Inputs on which \<open>build_model\<close> meets nothing undefined: an image with non-negative
  dimensions whose byte count fits an \<^verbatim>\<open>int\<close> and is covered by its data, sizes that the
  \<^verbatim>\<open>int\<close> counters can reach, atlas faces inside the face list of the mesh, three texture
  coordinate indices for every atlas face, each inside the texture coordinate array, valid
  vertex indices at the corners, and a mesh with a vertex and a normal.
\<close>

definition well_formed :: "mesh \<Rightarrow> texture_atlas \<Rightarrow> bool" where
  "well_formed mesh a =
     (let w = sint (width (atlas_image a)); h = sint (height (atlas_image a));
          n = length (atlas_faces a)
      in 0 \<le> w \<and> 0 \<le> h \<and> w * h * 3 \<le> INT_MAX \<and>
         nat (w * h * 3) \<le> length (image_data (atlas_image a)) \<and>
         int n * 3 \<le> INT_MAX \<and> int (length (atlas_texcoords a)) \<le> INT_MAX \<and>
         n * 3 \<le> length (atlas_texcoord_ids a) \<and>
         (\<forall>f\<in>set (atlas_faces a). unat (f * 3) + 3 \<le> length (mesh_faces mesh)) \<and>
         (\<forall>i<n. \<forall>j<3. unat (atlas_texcoord_ids a ! (i * 3 + j)) < length (atlas_texcoords a)) \<and>
         (\<forall>i<n. \<forall>j<3. valid_vertex_index mesh (corner_vertex mesh a i j)) \<and>
         mesh_vertices mesh \<noteq> [] \<and> mesh_normals mesh \<noteq> [])"

text \<open>\<^verbatim>\<open>t[j]\<close> for a \<^verbatim>\<open>glm::ivec3\<close> \<open>t\<close>.\<close>

definition component :: "ivec3 \<Rightarrow> nat \<Rightarrow> i32" where
  "component t j = (case t of (t0, t1, t2) \<Rightarrow> [t0, t1, t2] ! j)"

text \<open>The position of the first entry of a label vector that is greater than \<open>K\<close>.\<close>

definition first_bad :: "nat \<Rightarrow> nat list \<Rightarrow> nat" where
  "first_bad K labeling = length (takeWhile (\<lambda>l. l \<le> K) labeling)"

section \<open>A small scene\<close>

text \<open>
  Two triangles on four vertices. The atlas holds both faces and six texture
  coordinates: vertex 0 appears under the coordinates 0 and 3 (a seam), and coordinate 5
  belongs to no corner. A second atlas with other contents follows the first in the list.
\<close>

definition ex_mesh :: mesh where
  "ex_mesh =
     \<lparr>mesh_vertices = [(10, 11, 12), (20, 21, 22), (30, 31, 32), (40, 41, 42)],
      mesh_normals = [(1, 0, 0), (0, 1, 0), (0, 0, 1), (1, 1, 1)],
      mesh_faces = [0, 1, 2, 0, 2, 3]\<rparr>"

definition ex_atlas :: texture_atlas where
  "ex_atlas =
     \<lparr>atlas_image = \<lparr>width = 2, height = 1, image_data = [1, 2, 3, 4, 5, 6]\<rparr>,
      atlas_faces = [0, 1],
      atlas_texcoords = [(0, 0), (1, 0), (2, 0), (3, 0), (4, 0), (5, 0)],
      atlas_texcoord_ids = [0, 1, 2, 3, 2, 4]\<rparr>"

definition ex_atlas2 :: texture_atlas where
  "ex_atlas2 =
     \<lparr>atlas_image = \<lparr>width = 1, height = 1, image_data = [9, 9, 9]\<rparr>,
      atlas_faces = [1],
      atlas_texcoords = [(7, 7), (8, 8), (9, 9)],
      atlas_texcoord_ids = [2, 1, 0]\<rparr>"

definition ex_io :: buffers where
  "ex_io =
     \<lparr>points = [(10, 11, 12), (20, 21, 22), (30, 31, 32), (40, 41, 42)],
      normals = [(1, 0, 0), (0, 1, 0), (0, 0, 1), (1, 1, 1)],
      texCoords = [(6, 6)],
      triangles = [(0, 1, 2), (0, 2, 3)],
      textureWidth = 5, textureHeight = 5, textureData = [7]\<rparr>"

definition ex_model :: buffers where
  "ex_model =
     \<lparr>points = [(10, 11, 12), (20, 21, 22), (30, 31, 32), (10, 11, 12), (40, 41, 42),
                (10, 11, 12)],
      normals = [(1, 0, 0), (0, 1, 0), (0, 0, 1), (1, 0, 0), (1, 1, 1), (1, 0, 0)],
      texCoords = [(0, 0), (1, 0), (2, 0), (3, 0), (4, 0), (5, 0)],
      triangles = [(0, 1, 2), (3, 2, 4)],
      textureWidth = 2, textureHeight = 1, textureData = [1, 2, 3, 4, 5, 6]\<rparr>"

text \<open>
  Stand-ins for the library stages: two views, a mesh that is left as it is, a cost file
  that cannot be read, a labeling file with the entry 3 for two views, and the two
  atlases above.
\<close>

definition ex_ext :: "(unit, unit, unit, unit, unit) externals" where
  "ex_ext =
     \<lparr>mesh_info_init = (\<lambda>m. ()),
      tex_prepare_mesh = (\<lambda>mi m. (mi, m)),
      tex_generate_texture_views = (\<lambda>inp. map (\<lambda>d. ()) (imagesData inp)),
      tex_build_adjacency_graph = (\<lambda>m mi g. g\<lparr>edges := [(0, 1)]\<rparr>),
      data_costs_init = (\<lambda>n k. ()),
      tex_calculate_data_costs = (\<lambda>m tvs st dc. (tvs, dc)),
      tex_load_from_file = (\<lambda>f dc. Inl ''cannot open file''),
      tex_view_selection = (\<lambda>dc g st. g\<lparr>labels := [1, 2]\<rparr>),
      vector_from_file = (\<lambda>f. [1, 3]),
      tex_generate_texture_patches = (\<lambda>g m mi tvs st. (tvs, (), [(), ()])),
      tex_global_seam_leveling = (\<lambda>g m mi vpi ps. ps),
      patch_faces_size = (\<lambda>p. 1),
      adjust_colors = (\<lambda>p vs. p),
      tex_local_seam_leveling = (\<lambda>g m vpi ps. ps),
      tex_generate_texture_atlases = (\<lambda>ps st. [ex_atlas, ex_atlas2])\<rparr>"

definition ex_conf :: arguments where
  "ex_conf =
     \<lparr>out_prefix = [], data_cost_file = [], labeling_file = [],
      conf_settings = \<lparr>global_seam_leveling = False, local_seam_leveling = True\<rparr>,
      write_timings = True, write_intermediate_results = True,
      write_view_selection_model = True\<rparr>"

definition ex_inp :: views_input where
  "ex_inp =
     \<lparr>view_width = 1, view_height = 1, imagesData = [[1, 2, 3], [4, 5, 6]],
      camerasIntrinsic = [[1], [1]], camerasExtrinsic = [[0], [0]]\<rparr>"

text \<open>The same buffers with one triangle only.\<close>

definition ex_io1 :: buffers where
  "ex_io1 = ex_io\<lparr>triangles := [(0, 1, 2)]\<rparr>"

text \<open>The same stages, with an atlas generator that produces no atlas.\<close>

definition ex_ext_no_atlas :: "(unit, unit, unit, unit, unit) externals" where
  "ex_ext_no_atlas = ex_ext\<lparr>tex_generate_texture_atlases := (\<lambda>ps st. [])\<rparr>"

section \<open>Properties of the loops of \<^verbatim>\<open>build_model\<close>\<close>

lemma narrow_id:
  fixes x :: size_t
  assumes "unat x < 2 ^ 31"
  shows "sint (ucast x :: i32) = int (unat x)"
proof -
  have b: "int (unat x) < 2 ^ 31"
    using assms by (metis of_nat_less_iff of_nat_numeral of_nat_power)
  have c: "(0::int) \<le> int (unat x)" by simp
  have "sint (ucast x :: i32) = sint (word_of_int (uint x) :: i32)"
    by (simp only: ucast_eq)
  also have "\<dots> = signed_take_bit 31 (int (unat x))"
    by (simp only: sint_sbintrunc') simp
  also have "\<dots> = int (unat x)"
    unfolding signed_take_bit_int_eq_self_iff using b c by linarith
  finally show ?thesis .
qed

lemma copy_texture_Inr:
  assumes "copy_texture img = Inr (w, h, td)"
  shows "w = width img" and "h = height img"
    and "td = take (nat (sint (width img) * sint (height img) * 3)) (image_data img)"
    and "length td = nat (sint (width img) * sint (height img) * 3)"
    and "0 \<le> sint (width img) * sint (height img) * 3"
  using assms by (auto simp: copy_texture_def Let_def split: if_splits)

lemma read_face_Inr:
  "read_face mf f = Inr v \<Longrightarrow>
     v = (mf ! unat (f * 3), mf ! (unat (f * 3) + 1), mf ! (unat (f * 3) + 2)) \<and>
     unat (f * 3) + 3 \<le> length mf"
  by (auto simp: read_face_def Let_def split: if_splits)

lemma read_ids_Inr:
  "read_ids ids (int k) = Inr t \<Longrightarrow>
     t = (ucast (ids ! (k * 3)), ucast (ids ! (k * 3 + 1)), ucast (ids ! (k * 3 + 2))) \<and>
     k * 3 + 3 \<le> length ids"
  by (auto simp: read_ids_def read_id_def nat_add_distrib nat_mult_distrib
      split: sum.splits if_splits)

lemma fetch_corners_Inr:
  "fetch_corners mf ids i fs = Inr (vs, ts) \<Longrightarrow>
     length vs = length fs \<and> length ts = length fs \<and>
     (\<forall>k<length fs. read_face mf (fs ! k) = Inr (vs ! k) \<and>
        read_ids ids (i + int k) = Inr (ts ! k))"
proof (induction fs arbitrary: i vs ts)
  case Nil
  then show ?case by simp
next
  case (Cons f fs)
  from Cons.prems obtain v t vs' ts' where
    v: "read_face mf f = Inr v" and t: "read_ids ids i = Inr t"
    and r: "fetch_corners mf ids (i + 1) fs = Inr (vs', ts')"
    and e: "vs = v # vs'" "ts = t # ts'"
    by (auto split: sum.splits if_splits)
  from Cons.IH [OF r] have ih: "length vs' = length fs" "length ts' = length fs"
    "\<forall>k<length fs. read_face mf (fs ! k) = Inr (vs' ! k) \<and>
        read_ids ids (i + 1 + int k) = Inr (ts' ! k)"
    by auto
  show ?case
  proof (intro conjI allI impI)
    fix k assume "k < length (f # fs)"
    then show "read_face mf ((f # fs) ! k) = Inr (vs ! k)"
      using v ih e by (cases k) auto
  next
    fix k assume "k < length (f # fs)"
    then show "read_ids ids (i + int k) = Inr (ts ! k)"
      using t ih e by (cases k) (auto simp: algebra_simps)
  qed (use ih e in auto)
qed

lemma gather_Inr:
  "gather e src i ks = Inr ps \<Longrightarrow>
     length ps = length ks \<and>
     (\<forall>k<length ks. 0 \<le> sint (ks ! k) \<and> nat (sint (ks ! k)) < length src \<and>
        ps ! k = src ! nat (sint (ks ! k)))"
proof (induction ks arbitrary: i ps)
  case Nil
  then show ?case by simp
next
  case (Cons a ks)
  from Cons.prems obtain ps' where
    a: "0 \<le> sint a" "nat (sint a) < length src"
    and r: "gather e src (i + 1) ks = Inr ps'" and p: "ps = src ! nat (sint a) # ps'"
    by (auto split: sum.splits if_splits)
  from Cons.IH [OF r] have ih: "length ps' = length ks"
    "\<forall>k<length ks. 0 \<le> sint (ks ! k) \<and> nat (sint (ks ! k)) < length src \<and>
        ps' ! k = src ! nat (sint (ks ! k))"
    by auto
  show ?case
  proof (intro conjI allI impI)
    fix k assume "k < length (a # ks)"
    then show "0 \<le> sint ((a # ks) ! k)" "nat (sint ((a # ks) ! k)) < length src"
      "ps ! k = src ! nat (sint ((a # ks) ! k))"
      using a ih p by (cases k; auto)+
  qed (use ih p in auto)
qed

lemma gather_counter:
  "gather e src i ks = Inr ps \<Longrightarrow> i \<le> INT_MAX \<Longrightarrow> i + int (length ks) \<le> INT_MAX"
proof (induction ks arbitrary: i ps)
  case Nil
  then show ?case by simp
next
  case (Cons a ks)
  from Cons.prems obtain ps' where i: "i \<noteq> INT_MAX"
    and r: "gather e src (i + 1) ks = Inr ps'"
    by (auto split: sum.splits if_splits)
  from i Cons.prems(2) have "i + 1 \<le> INT_MAX" by simp
  from Cons.IH [OF r this] show ?case by simp
qed

lemma gather_defined:
  "\<forall>k\<in>set ks. 0 \<le> sint k \<and> nat (sint k) < length src \<Longrightarrow>
     gather e src i ks \<noteq> Inl e \<or> e = IntOverflow"
  by (induction ks arbitrary: i) (auto split: sum.splits)

lemma set_corners_Inr:
  "set_corners m t v = Inr m' \<Longrightarrow>
     m' = fold put (flat_corners [(t, v)]) m \<and>
     (\<forall>p\<in>set (flat_corners [(t, v)]). 0 \<le> sint (fst p) \<and> nat (sint (fst p)) < length m)"
  by (auto simp: set_corners_def set_map_def flat_corners_def put_def
      split: prod.splits sum.splits if_splits)

lemma length_fold_put: "length (fold put ps m) = length m"
  by (induction ps arbitrary: m) (auto simp: put_def)

lemma flat_corners_Cons: "flat_corners (c # cs) = flat_corners [c] @ flat_corners cs"
  by (simp add: flat_corners_def)

lemma build_map_Inr:
  "build_map m i cs = Inr m' \<Longrightarrow>
     m' = fold put (flat_corners cs) m \<and>
     (\<forall>p\<in>set (flat_corners cs). 0 \<le> sint (fst p) \<and> nat (sint (fst p)) < length m)"
proof (induction cs arbitrary: m i)
  case Nil
  then show ?case by (simp add: flat_corners_def)
next
  case (Cons c cs)
  obtain t v where c: "c = (t, v)" by (cases c)
  from Cons.prems c obtain m1 where
    s: "set_corners m t v = Inr m1" and r: "build_map m1 (i + 1) cs = Inr m'"
    by (auto split: sum.splits if_splits)
  note a = set_corners_Inr [OF s]
  note b = Cons.IH [OF r]
  have len: "length m1 = length m" using a by (simp add: length_fold_put)
  show ?case
    using a b len by (auto simp: c flat_corners_Cons [of "(t, v)" cs])
qed

lemma length_build_map:
  "build_map m0 i cs = Inr m \<Longrightarrow> length m = length m0"
  using build_map_Inr [of m0 i cs m] by (simp add: length_fold_put)

lemma find_app:
  "find P (xs @ ys) = (case find P xs of None \<Rightarrow> find P ys | Some x \<Rightarrow> Some x)"
  by (induction xs) auto

lemma find_map_eq:
  "find P (map f xs) = map_option f (find (\<lambda>x. P (f x)) xs)"
  by (induction xs) auto

lemma fold_put_nth:
  "k < length m \<Longrightarrow>
     fold put ps m ! k =
       (case find (\<lambda>p. nat (sint (fst p)) = k) (rev ps) of None \<Rightarrow> m ! k | Some p \<Rightarrow> snd p)"
proof (induction ps arbitrary: m)
  case Nil
  then show ?case by simp
next
  case (Cons p ps)
  have len: "k < length (put p m)" using Cons.prems by (simp add: put_def)
  show ?case
    using Cons.IH [OF len] Cons.prems
    by (auto simp: put_def find_app split: option.splits)
qed

lemma zip_corners:
  assumes "fetch_corners (mesh_faces mesh) (atlas_texcoord_ids a) 0 (atlas_faces a)
             = Inr (vs, ts)"
  shows "zip ts vs =
     map (\<lambda>i. ((corner_texcoord a i 0, corner_texcoord a i 1, corner_texcoord a i 2),
                (corner_vertex mesh a i 0, corner_vertex mesh a i 1,
                 corner_vertex mesh a i 2)))
       [0..<length (atlas_faces a)]" (is "?l = ?r")
proof (rule nth_equalityI)
  note f = fetch_corners_Inr [OF assms]
  show "length ?l = length ?r"
    using f by simp
  fix k assume "k < length ?l"
  then have k: "k < length (atlas_faces a)" using f by simp
  from f k have rf: "read_face (mesh_faces mesh) (atlas_faces a ! k) = Inr (vs ! k)"
    and ri: "read_ids (atlas_texcoord_ids a) (int k) = Inr (ts ! k)"
    by auto
  show "?l ! k = ?r ! k"
    using k f read_face_Inr [OF rf] read_ids_Inr [OF ri]
    by (simp add: corner_texcoord_def corner_vertex_def)
qed

lemma pairs_of_corners:
  assumes "fetch_corners (mesh_faces mesh) (atlas_texcoord_ids a) 0 (atlas_faces a)
             = Inr (vs, ts)"
  shows "map (\<lambda>p. (as_index (snd p), as_index (fst p))) (flat_corners (zip ts vs)) =
     corner_pairs mesh a"
  unfolding zip_corners [OF assms] flat_corners_def corner_pairs_def
  by (simp add: map_concat comp_def)

lemma build_model_Inr:
  assumes "build_model mesh (a # rest) out0 = Inr out"
  obtains w h td vs ts m ps ns where
    "copy_texture (atlas_image a) = Inr (w, h, td)"
    "fetch_corners (mesh_faces mesh) (atlas_texcoord_ids a) 0 (atlas_faces a) = Inr (vs, ts)"
    "build_map (replicate (length (atlas_texcoords a)) 0) 0 (zip ts vs) = Inr m"
    "gather VerticesReadOOB (mesh_vertices mesh) 0 m = Inr ps"
    "gather NormalsReadOOB (mesh_normals mesh) 0 m = Inr ns"
    "out = \<lparr>points = ps, normals = ns, texCoords = atlas_texcoords a, triangles = ts,
            textureWidth = w, textureHeight = h, textureData = td\<rparr>"
  using assms unfolding build_model_def
  by (auto split: sum.splits prod.splits)

lemma map_entry:
  assumes f: "fetch_corners (mesh_faces mesh) (atlas_texcoord_ids a) 0 (atlas_faces a)
                = Inr (vs, ts)"
    and b: "build_map (replicate n 0) 0 (zip ts vs) = Inr m"
    and k: "k < n"
  shows "as_index (m ! k) = texcoord_vertex (corner_pairs mesh a) k"
proof -
  let ?fc = "flat_corners (zip ts vs)"
  from build_map_Inr [OF b] have m: "m = fold put ?fc (replicate n 0)" by simp
  have "m ! k = (case find (\<lambda>p. nat (sint (fst p)) = k) (rev ?fc) of
                   None \<Rightarrow> 0 | Some p \<Rightarrow> snd p)"
    using k by (simp add: m fold_put_nth split: option.splits)
  moreover have "texcoord_vertex (corner_pairs mesh a) k =
      (case find (\<lambda>p. nat (sint (fst p)) = k) (rev ?fc) of
         None \<Rightarrow> 0 | Some p \<Rightarrow> as_index (snd p))"
  proof -
    have "corner_pairs mesh a = map (\<lambda>p. (as_index (snd p), as_index (fst p))) ?fc"
      by (simp only: pairs_of_corners [OF f])
    then have "rev (corner_pairs mesh a) =
        map (\<lambda>p. (as_index (snd p), as_index (fst p))) (rev ?fc)"
      by (simp only: rev_map)
    then show ?thesis
      by (simp add: texcoord_vertex_def find_map_eq as_index_def split: option.splits)
  qed
  ultimately show ?thesis
    by (simp add: as_index_def split: option.splits)
qed

lemma find_Some_member:
  "find P xs = Some x \<Longrightarrow> x \<in> set xs \<and> P x"
  by (induction xs) (auto split: if_splits)

lemma texcoord_vertex_paired:
  assumes "t \<in> snd ` set ps"
  shows "(texcoord_vertex ps t, t) \<in> set ps"
proof -
  from assms obtain q where q: "q \<in> set (rev ps)" "snd q = t" by auto
  then have "find (\<lambda>p. snd p = t) (rev ps) \<noteq> None"
    unfolding find_None_iff by blast
  then obtain p where p: "find (\<lambda>p. snd p = t) (rev ps) = Some p"
    by auto
  from find_Some_member [OF p] have "p \<in> set ps" "snd p = t" by auto
  then have "(fst p, t) \<in> set ps" by (cases p) auto
  then show ?thesis using p by (simp add: texcoord_vertex_def)
qed

lemma texcoord_vertex_unpaired:
  assumes "t \<notin> snd ` set ps"
  shows "texcoord_vertex ps t = 0"
proof -
  from assms have "\<forall>p\<in>set (rev ps). snd p \<noteq> t" by force
  then have "find (\<lambda>p. snd p = t) (rev ps) = None"
    unfolding find_None_iff by blast
  then show ?thesis by (simp add: texcoord_vertex_def)
qed

lemma build_model_gathered:
  assumes "build_model mesh (a # rest) out0 = Inr out" and v: "v < length (atlas_texcoords a)"
  shows "points out ! v = mesh_vertices mesh ! texcoord_vertex (corner_pairs mesh a) v"
    and "normals out ! v = mesh_normals mesh ! texcoord_vertex (corner_pairs mesh a) v"
    and "texcoord_vertex (corner_pairs mesh a) v < length (mesh_vertices mesh)"
    and "texcoord_vertex (corner_pairs mesh a) v < length (mesh_normals mesh)"
    and "length (points out) = length (atlas_texcoords a)"
    and "length (normals out) = length (atlas_texcoords a)"
proof -
  from assms(1) obtain w h td vs ts m ps ns where
    f: "fetch_corners (mesh_faces mesh) (atlas_texcoord_ids a) 0 (atlas_faces a)
          = Inr (vs, ts)"
    and b: "build_map (replicate (length (atlas_texcoords a)) 0) 0 (zip ts vs) = Inr m"
    and gp: "gather VerticesReadOOB (mesh_vertices mesh) 0 m = Inr ps"
    and gn: "gather NormalsReadOOB (mesh_normals mesh) 0 m = Inr ns"
    and out: "out = \<lparr>points = ps, normals = ns, texCoords = atlas_texcoords a,
            triangles = ts, textureWidth = w, textureHeight = h, textureData = td\<rparr>"
    by (auto elim: build_model_Inr)
  have len: "length m = length (atlas_texcoords a)"
    using length_build_map [OF b] by simp
  have e: "nat (sint (m ! v)) = texcoord_vertex (corner_pairs mesh a) v"
    using map_entry [OF f b v] by (simp add: as_index_def)
  from gather_Inr [OF gp] len v e out
  show "points out ! v = mesh_vertices mesh ! texcoord_vertex (corner_pairs mesh a) v"
    and "texcoord_vertex (corner_pairs mesh a) v < length (mesh_vertices mesh)"
    and "length (points out) = length (atlas_texcoords a)"
    by auto
  from gather_Inr [OF gn] len v e out
  show "normals out ! v = mesh_normals mesh ! texcoord_vertex (corner_pairs mesh a) v"
    and "texcoord_vertex (corner_pairs mesh a) v < length (mesh_normals mesh)"
    and "length (normals out) = length (atlas_texcoords a)"
    by auto
qed

lemma copy_texture_faults:
  "copy_texture img = Inl e \<Longrightarrow> e \<in> {IntOverflow, LengthError, ImageReadOOB}"
  by (auto simp: copy_texture_def Let_def split: if_splits)

lemma read_ids_faults:
  "read_ids ids i = Inl e \<Longrightarrow> e \<in> {IntOverflow, TexcoordIdsReadOOB}"
  by (auto simp: read_ids_def read_id_def split: sum.splits if_splits)

lemma fetch_corners_faults:
  "fetch_corners mf ids i fs = Inl e \<Longrightarrow>
     e \<in> {IntOverflow, MeshFacesReadOOB, TexcoordIdsReadOOB}"
proof (induction fs arbitrary: i)
  case Nil
  then show ?case by simp
next
  case (Cons f fs)
  show ?case
  proof (cases "read_face mf f")
    case (Inl x)
    then show ?thesis using Cons.prems
      by (auto simp: read_face_def Let_def split: if_splits)
  next
    case v: (Inr v)
    show ?thesis
    proof (cases "read_ids ids i")
      case (Inl x)
      then show ?thesis using Cons.prems v read_ids_faults [of ids i x] by auto
    next
      case t: (Inr t)
      show ?thesis
      proof (cases "i = INT_MAX")
        case True
        then show ?thesis using Cons.prems v t by simp
      next
        case False
        then show ?thesis using Cons.prems v t Cons.IH [of "i + 1"]
          by (auto split: sum.splits)
      qed
    qed
  qed
qed

lemma build_map_faults:
  "build_map m i cs = Inl e \<Longrightarrow> e \<in> {IntOverflow, MapWriteOOB}"
proof (induction cs arbitrary: m i)
  case Nil
  then show ?case by simp
next
  case (Cons c cs)
  obtain t v where c: "c = (t, v)" by (cases c)
  show ?case
  proof (cases "set_corners m t v")
    case (Inl x)
    then show ?thesis using Cons.prems c
      by (auto simp: set_corners_def set_map_def split: prod.splits sum.splits if_splits)
  next
    case (Inr m1)
    then show ?thesis using Cons.prems c Cons.IH [of m1 "i + 1"]
      by (auto split: if_splits)
  qed
qed

lemma gather_faults:
  "gather e0 src i ks = Inl e \<Longrightarrow> e \<in> {IntOverflow, e0}"
  by (induction ks arbitrary: i) (auto split: sum.splits if_splits)

lemma set_fold_put: "set (fold put ps m) \<subseteq> set m \<union> snd ` set ps"
proof (induction ps arbitrary: m)
  case Nil
  then show ?case by simp
next
  case (Cons p ps)
  have "set (put p m) \<subseteq> insert (snd p) (set m)"
    unfolding put_def by (rule set_update_subset_insert)
  with Cons.IH [of "put p m"] show ?case by auto
qed

lemma map_entries_valid:
  assumes f: "fetch_corners (mesh_faces mesh) (atlas_texcoord_ids a) 0 (atlas_faces a)
                = Inr (vs, ts)"
    and b: "build_map (replicate n 0) 0 (zip ts vs) = Inr m"
    and ne: "mesh_vertices mesh \<noteq> []" "mesh_normals mesh \<noteq> []"
    and val: "\<forall>i<length (atlas_faces a). \<forall>j<3.
                valid_vertex_index mesh (corner_vertex mesh a i j)"
    and k: "k \<in> set m"
  shows "valid_vertex_index mesh k"
proof -
  from build_map_Inr [OF b] have "m = fold put (flat_corners (zip ts vs)) (replicate n 0)"
    by simp
  with set_fold_put [of "flat_corners (zip ts vs)" "replicate n 0"] k
  have "k = 0 \<or> k \<in> snd ` set (flat_corners (zip ts vs))" by auto
  then show ?thesis
  proof
    assume "k = 0"
    then show ?thesis using ne by (simp add: valid_vertex_index_def)
  next
    assume "k \<in> snd ` set (flat_corners (zip ts vs))"
    then have "\<exists>i<length (atlas_faces a). k = corner_vertex mesh a i 0 \<or>
        k = corner_vertex mesh a i 1 \<or> k = corner_vertex mesh a i 2"
      unfolding zip_corners [OF f] flat_corners_def by (auto simp: image_iff)
    then obtain i where i: "i < length (atlas_faces a)"
      and d: "k = corner_vertex mesh a i 0 \<or> k = corner_vertex mesh a i 1 \<or>
        k = corner_vertex mesh a i 2"
      by blast
    from val i have "valid_vertex_index mesh (corner_vertex mesh a i 0)"
      "valid_vertex_index mesh (corner_vertex mesh a i 1)"
      "valid_vertex_index mesh (corner_vertex mesh a i 2)"
      by simp_all
    with d show ?thesis by auto
  qed
qed

lemma build_model_Inl:
  assumes "build_model mesh (a # rest) out0 = Inl e"
  shows "copy_texture (atlas_image a) = Inl e \<or>
    fetch_corners (mesh_faces mesh) (atlas_texcoord_ids a) 0 (atlas_faces a) = Inl e \<or>
    (\<exists>vs ts. fetch_corners (mesh_faces mesh) (atlas_texcoord_ids a) 0 (atlas_faces a)
         = Inr (vs, ts) \<and>
       (build_map (replicate (length (atlas_texcoords a)) 0) 0 (zip ts vs) = Inl e \<or>
        (\<exists>m. build_map (replicate (length (atlas_texcoords a)) 0) 0 (zip ts vs) = Inr m \<and>
           (gather VerticesReadOOB (mesh_vertices mesh) 0 m = Inl e \<or>
            gather NormalsReadOOB (mesh_normals mesh) 0 m = Inl e))))"
  using assms unfolding build_model_def
  by (simp split: sum.splits prod.splits)


lemma flat_corners_nth_mem:
  assumes "k < length cs" and "cs ! k = ((t0, t1, t2), (v0, v1, v2))"
  shows "(t0, v0) \<in> set (flat_corners cs)" "(t1, v1) \<in> set (flat_corners cs)"
    "(t2, v2) \<in> set (flat_corners cs)"
proof -
  from assms have "((t0, t1, t2), (v0, v1, v2)) \<in> set cs"
    by (metis nth_mem)
  then show "(t0, v0) \<in> set (flat_corners cs)" "(t1, v1) \<in> set (flat_corners cs)"
    "(t2, v2) \<in> set (flat_corners cs)"
    by (force simp: flat_corners_def)+
qed

text \<open>On well-formed inputs every stage returns, and so does \<open>build_model\<close>.\<close>

lemma copy_texture_returns:
  assumes "0 \<le> sint (width img)" "0 \<le> sint (height img)"
    and "sint (width img) * sint (height img) * 3 \<le> INT_MAX"
    and "nat (sint (width img) * sint (height img) * 3) \<le> length (image_data img)"
  shows "\<exists>r. copy_texture img = Inr r"
proof -
  define p where "p = sint (width img) * sint (height img)"
  have p0: "0 \<le> p" using assms(1,2) by (simp add: p_def)
  have p3: "p * 3 \<le> INT_MAX" using assms(3) by (simp add: p_def)
  have len: "\<not> length (image_data img) < nat (p * 3)" using assms(4) by (simp add: p_def)
  have "fits_int p" "fits_int (p * 3)" "\<not> p * 3 < 0"
    using p0 p3 by (simp_all add: fits_int_def INT_MIN_def)
  then show ?thesis using len
    unfolding copy_texture_def Let_def p_def [symmetric] by simp
qed

lemma read_ids_returns:
  assumes "0 \<le> i" "(i + 1) * 3 \<le> INT_MAX" "nat (i + 1) * 3 \<le> length ids"
  shows "\<exists>t. read_ids ids i = Inr t"
proof -
  have f: "fits_int (i * 3 + j)" if "0 \<le> j" "j < 3" for j
    using assms(1,2) that by (simp add: fits_int_def INT_MIN_def)
  have l: "\<not> length ids \<le> nat (i * 3 + j)" if "0 \<le> j" "j < 3" for j
    using assms(1,3) that by (simp add: nat_add_distrib nat_mult_distrib)
  show ?thesis
    using f [of 0] f [of 1] f [of 2] l [of 0] l [of 1] l [of 2]
    by (simp add: read_ids_def read_id_def)
qed

lemma fetch_corners_returns:
  "\<forall>f\<in>set fs. unat (f * 3) + 3 \<le> length mf \<Longrightarrow> 0 \<le> i \<Longrightarrow>
     (i + int (length fs)) * 3 \<le> INT_MAX \<Longrightarrow> nat (i + int (length fs)) * 3 \<le> length ids \<Longrightarrow>
     \<exists>r. fetch_corners mf ids i fs = Inr r"
proof (induction fs arbitrary: i)
  case Nil
  then show ?case by simp
next
  case (Cons f fs)
  have rf: "\<exists>v. read_face mf f = Inr v"
    using Cons.prems(1) by (simp add: read_face_def Let_def)
  have a: "(i + 1) * 3 \<le> INT_MAX" using Cons.prems(2,3) by simp
  have b: "nat (i + 1) * 3 \<le> length ids"
    using Cons.prems(2,4) by (simp add: nat_add_distrib)
  from read_ids_returns [OF Cons.prems(2) a b] obtain t where t: "read_ids ids i = Inr t" ..
  have ne: "i \<noteq> INT_MAX" using a Cons.prems(2) by (simp add: INT_MAX_def)
  have "\<exists>r. fetch_corners mf ids (i + 1) fs = Inr r"
    using Cons.prems by (intro Cons.IH) (simp_all add: algebra_simps)
  then show ?case using rf t ne by (auto split: prod.splits)
qed

lemma set_corners_returns:
  assumes "\<forall>p\<in>set (flat_corners [(t, v)]). 0 \<le> sint (fst p) \<and> nat (sint (fst p)) < length m"
  shows "\<exists>m'. set_corners m t v = Inr m'"
  using assms
  by (cases t; cases v) (simp add: set_corners_def set_map_def flat_corners_def)

lemma build_map_returns:
  "\<forall>p\<in>set (flat_corners cs). 0 \<le> sint (fst p) \<and> nat (sint (fst p)) < length m \<Longrightarrow>
     i + int (length cs) \<le> INT_MAX \<Longrightarrow> \<exists>m'. build_map m i cs = Inr m'"
proof (induction cs arbitrary: m i)
  case Nil
  then show ?case by simp
next
  case (Cons c cs)
  obtain t v where c: "c = (t, v)" by (cases c)
  have s: "set (flat_corners (c # cs)) = set (flat_corners [(t, v)]) \<union> set (flat_corners cs)"
    using flat_corners_Cons [of c cs] c by simp
  from Cons.prems(1) s have
    h1: "\<forall>p\<in>set (flat_corners [(t, v)]). 0 \<le> sint (fst p) \<and> nat (sint (fst p)) < length m"
    and h2: "\<forall>p\<in>set (flat_corners cs). 0 \<le> sint (fst p) \<and> nat (sint (fst p)) < length m"
    by auto
  from set_corners_returns [OF h1] obtain m1 where m1: "set_corners m t v = Inr m1" ..
  have len: "length m1 = length m"
    using set_corners_Inr [OF m1] by (simp add: length_fold_put)
  have ne: "i \<noteq> INT_MAX" using Cons.prems(2) by simp
  have "\<exists>m'. build_map m1 (i + 1) cs = Inr m'"
    using h2 len Cons.prems(2) by (intro Cons.IH) simp_all
  then show ?case using c m1 ne by simp
qed

lemma gather_returns:
  "\<forall>k\<in>set ks. 0 \<le> sint k \<and> nat (sint k) < length src \<Longrightarrow>
     i + int (length ks) \<le> INT_MAX \<Longrightarrow> \<exists>ps. gather e src i ks = Inr ps"
proof (induction ks arbitrary: i)
  case Nil
  then show ?case by simp
next
  case (Cons k ks)
  have ne: "i \<noteq> INT_MAX" using Cons.prems(2) by simp
  have "\<exists>ps. gather e src (i + 1) ks = Inr ps"
    using Cons.prems by (intro Cons.IH) simp_all
  then show ?case using Cons.prems(1) ne by auto
qed


lemma flat_corners_mem:
  assumes f: "fetch_corners (mesh_faces mesh) (atlas_texcoord_ids a) 0 (atlas_faces a)
                = Inr (vs, ts)"
    and p: "p \<in> set (flat_corners (zip ts vs))"
  shows "\<exists>i<length (atlas_faces a). \<exists>j<3.
           p = (corner_texcoord a i j, corner_vertex mesh a i j)"
proof -
  from p have "\<exists>i<length (atlas_faces a).
      p = (corner_texcoord a i 0, corner_vertex mesh a i 0) \<or>
      p = (corner_texcoord a i 1, corner_vertex mesh a i 1) \<or>
      p = (corner_texcoord a i 2, corner_vertex mesh a i 2)"
    unfolding zip_corners [OF f] flat_corners_def by auto
  then obtain i where i: "i < length (atlas_faces a)"
    and d: "p = (corner_texcoord a i 0, corner_vertex mesh a i 0) \<or>
      p = (corner_texcoord a i 1, corner_vertex mesh a i 1) \<or>
      p = (corner_texcoord a i 2, corner_vertex mesh a i 2)"
    by blast
  have "(0::nat) < 3" "(1::nat) < 3" "(2::nat) < 3" by simp_all
  with i d show ?thesis by blast
qed

lemma build_model_returns:
  assumes wf: "well_formed mesh a"
  shows "\<exists>out. build_model mesh (a # rest) out0 = Inr out"
proof -
  let ?n = "length (atlas_faces a)"
  let ?N = "length (atlas_texcoords a)"
  from wf have img: "0 \<le> sint (width (atlas_image a))" "0 \<le> sint (height (atlas_image a))"
    "sint (width (atlas_image a)) * sint (height (atlas_image a)) * 3 \<le> INT_MAX"
    "nat (sint (width (atlas_image a)) * sint (height (atlas_image a)) * 3)
       \<le> length (image_data (atlas_image a))"
    and n: "int ?n * 3 \<le> INT_MAX" and N: "int ?N \<le> INT_MAX"
    and ids: "?n * 3 \<le> length (atlas_texcoord_ids a)"
    and fs: "\<forall>f\<in>set (atlas_faces a). unat (f * 3) + 3 \<le> length (mesh_faces mesh)"
    and tc: "\<forall>i<?n. \<forall>j<3. unat (atlas_texcoord_ids a ! (i * 3 + j)) < ?N"
    and vx: "\<forall>i<?n. \<forall>j<3. valid_vertex_index mesh (corner_vertex mesh a i j)"
    and ne: "mesh_vertices mesh \<noteq> []" "mesh_normals mesh \<noteq> []"
    by (simp_all add: well_formed_def Let_def)
  from copy_texture_returns [OF img] obtain w h td where
    c: "copy_texture (atlas_image a) = Inr (w, h, td)"
    by (metis prod_cases3)
  have "\<exists>r. fetch_corners (mesh_faces mesh) (atlas_texcoord_ids a) 0 (atlas_faces a) = Inr r"
    using fs n ids by (intro fetch_corners_returns) simp_all
  then obtain vs ts where
    f: "fetch_corners (mesh_faces mesh) (atlas_texcoord_ids a) 0 (atlas_faces a)
          = Inr (vs, ts)"
    by (metis surj_pair)
  have lz: "length (zip ts vs) = ?n" using fetch_corners_Inr [OF f] by simp
  have w: "0 \<le> sint (fst p) \<and> nat (sint (fst p)) < length (replicate ?N (0::i32))"
    if p: "p \<in> set (flat_corners (zip ts vs))" for p
  proof -
    from flat_corners_mem [OF f p] obtain i j where i: "i < ?n" and j: "j < 3"
      and e: "p = (corner_texcoord a i j, corner_vertex mesh a i j)"
      by blast
    from tc i j have u: "unat (atlas_texcoord_ids a ! (i * 3 + j)) < ?N" by simp
    with N have "unat (atlas_texcoord_ids a ! (i * 3 + j)) < 2 ^ 31"
      by (simp add: INT_MAX_def)
    from narrow_id [OF this] u show ?thesis
      by (simp add: e corner_texcoord_def)
  qed
  have "\<exists>m. build_map (replicate ?N 0) 0 (zip ts vs) = Inr m"
  proof (rule build_map_returns)
    show "\<forall>p\<in>set (flat_corners (zip ts vs)).
        0 \<le> sint (fst p) \<and> nat (sint (fst p)) < length (replicate ?N (0::i32))"
      using w by blast
    show "0 + int (length (zip ts vs)) \<le> INT_MAX" using lz n by simp
  qed
  then obtain m where b: "build_map (replicate ?N 0) 0 (zip ts vs) = Inr m" ..
  have len: "length m = ?N" using length_build_map [OF b] by simp
  have val: "valid_vertex_index mesh k" if "k \<in> set m" for k
    using map_entries_valid [OF f b ne vx that] .
  have "\<exists>ps. gather VerticesReadOOB (mesh_vertices mesh) 0 m = Inr ps"
    using val len N by (intro gather_returns) (simp_all add: valid_vertex_index_def)
  then obtain ps where gp: "gather VerticesReadOOB (mesh_vertices mesh) 0 m = Inr ps" ..
  have "\<exists>ns. gather NormalsReadOOB (mesh_normals mesh) 0 m = Inr ns"
    using val len N by (intro gather_returns) (simp_all add: valid_vertex_index_def)
  then obtain ns where gn: "gather NormalsReadOOB (mesh_normals mesh) 0 m = Inr ns" ..
  show ?thesis
    using c f b gp gn by (simp add: build_model_def)
qed

section \<open>Properties of the labeling override\<close>

lemma transfer_labeling_eq:
  "i + length L \<le> length (labels g) \<Longrightarrow>
     transfer_labeling K i L g =
       (if first_bad K L = length L then
          Transferred (g\<lparr>labels := take i (labels g) @ L @ drop (i + length L) (labels g)\<rparr>)
        else
          Mismatch (g\<lparr>labels := take i (labels g) @ take (first_bad K L) L @
                          drop (i + first_bad K L) (labels g)\<rparr>))"
proof (induction L arbitrary: i g)
  case Nil
  then show ?case by (simp add: first_bad_def)
next
  case (Cons l L)
  show ?case
  proof (cases "K < l")
    case True
    then show ?thesis by (simp add: first_bad_def)
  next
    case False
    let ?g = "set_label i l g"
    have i: "i < length (labels g)" using Cons.prems by simp
    have len: "Suc i + length L \<le> length (labels ?g)"
      using Cons.prems by (simp add: set_label_def)
    have fb: "first_bad K (l # L) = Suc (first_bad K L)"
      using False by (simp add: first_bad_def)
    have tk: "take (Suc i) (labels ?g) = take i (labels g) @ [l]"
      using i by (simp add: set_label_def take_Suc_conv_app_nth)
    have dr: "\<And>n. drop (Suc i + n) (labels ?g) = drop (Suc (i + n)) (labels g)"
      by (simp add: set_label_def)
    have "transfer_labeling K i (l # L) g = transfer_labeling K (Suc i) L ?g"
      using False by simp
    also note Cons.IH [OF len]
    finally show ?thesis
      using fb tk dr by (simp add: set_label_def)
  qed
qed

lemma first_bad_le: "first_bad K L \<le> length L"
  by (simp add: first_bad_def length_takeWhile_le)

lemma first_bad_all: "first_bad K L = length L \<longleftrightarrow> (\<forall>l\<in>set L. l \<le> K)"
  unfolding first_bad_def by (induction L) auto

lemma first_bad_nth:
  "first_bad K L < length L \<Longrightarrow> K < L ! first_bad K L"
  unfolding first_bad_def using nth_length_takeWhile [of "\<lambda>l. l \<le> K" L] by auto

lemma first_bad_before:
  "q < first_bad K L \<Longrightarrow> L ! q \<le> K"
  unfolding first_bad_def
  by (metis nth_mem set_takeWhileD takeWhile_nth)

lemma load_labeling_eq:
  "load_labeling K L g =
     (if length L \<noteq> num_nodes g then Mismatch g
      else if first_bad K L = length L then Transferred (g\<lparr>labels := L\<rparr>)
      else Mismatch (g\<lparr>labels := take (first_bad K L) L @ drop (first_bad K L) (labels g)\<rparr>))"
  by (simp add: load_labeling_def num_nodes_def transfer_labeling_eq)

lemma load_labeling_Transferred_iff:
  "(\<exists>g'. load_labeling K L g = Transferred g') \<longleftrightarrow>
     (length L = num_nodes g \<and> (\<forall>l\<in>set L. l \<le> K))"
  unfolding load_labeling_eq first_bad_all [symmetric] by auto

lemma load_labeling_Mismatch_iff:
  "(\<exists>g'. load_labeling K L g = Mismatch g') \<longleftrightarrow>
     \<not> (length L = num_nodes g \<and> (\<forall>l\<in>set L. l \<le> K))"
  unfolding load_labeling_eq first_bad_all [symmetric] by auto

section \<open>Properties of \<^verbatim>\<open>reconstructTexture\<close>\<close>

lemma run_stages_eq:
  assumes "(mesh_info, mesh) =
      tex_prepare_mesh ext (mesh_info_init ext (copy_mesh io)) (copy_mesh io)"
    and "tvs = tex_generate_texture_views ext inp"
    and "nf = length (mesh_faces mesh) div 3"
    and "g = tex_build_adjacency_graph ext mesh mesh_info (Graph nf)"
    and "conf = conf0\<lparr>out_prefix := ''textured'', write_timings := False,
                       write_intermediate_results := False,
                       write_view_selection_model := False\<rparr>"
  shows "run_stages ext conf0 inp io =
     (case resolve_labeling ext conf mesh tvs nf g of
        Inl msg \<Rightarrow> Inl msg
      | Inr (tvs', g') \<Rightarrow> Inr (mesh, make_atlases ext conf g' mesh mesh_info tvs'))"
  using assms(1) unfolding run_stages_def Let_def assms(2-5)
  by (auto split: prod.splits)

lemma resolve_labeling_conf:
  "resolve_labeling ext (conf0\<lparr>out_prefix := a, write_timings := b,
       write_intermediate_results := c, write_view_selection_model := d\<rparr>) mesh tvs nf g =
   resolve_labeling ext conf0 mesh tvs nf g"
  by (simp add: resolve_labeling_def Let_def cong: if_cong sum.case_cong)

lemma reconstructTexture_cases:
  "(\<exists>msg. run_stages ext conf0 inp io = Inl msg \<and>
       reconstructTexture ext conf0 inp io = Inr (msg, io)) \<or>
   (\<exists>mesh atlases. run_stages ext conf0 inp io = Inr (mesh, atlases) \<and>
       ((\<exists>f. build_model mesh atlases io = Inl f \<and>
            reconstructTexture ext conf0 inp io = Inl f) \<or>
        (\<exists>out. build_model mesh atlases io = Inr out \<and>
            reconstructTexture ext conf0 inp io = Inr ([], out))))"
  unfolding reconstructTexture_def
  by (cases "run_stages ext conf0 inp io") (auto split: sum.splits)

lemma run_stages_mesh:
  assumes "run_stages ext conf0 inp io = Inr (mesh, atlases)"
  shows "\<exists>mesh_info. (mesh_info, mesh) =
         tex_prepare_mesh ext (mesh_info_init ext (copy_mesh io)) (copy_mesh io)"
proof -
  obtain mi m where pm: "(mi, m) =
      tex_prepare_mesh ext (mesh_info_init ext (copy_mesh io)) (copy_mesh io)"
    by (metis surj_pair)
  from assms run_stages_eq [OF pm refl refl refl refl, of conf0 inp]
  have "m = mesh"
    by (cases "resolve_labeling ext
          (conf0\<lparr>out_prefix := ''textured'', write_timings := False,
                 write_intermediate_results := False,
                 write_view_selection_model := False\<rparr>) m
          (tex_generate_texture_views ext inp) (length (mesh_faces m) div 3)
          (tex_build_adjacency_graph ext m mi (Graph (length (mesh_faces m) div 3)))")
      (auto split: prod.splits)
  with pm show ?thesis by blast
qed

section \<open>The small scene, evaluated\<close>

lemma ex_build_model: "build_model ex_mesh [ex_atlas, ex_atlas2] ex_io = Inr ex_model"
  by (simp add: build_model_def ex_mesh_def ex_atlas_def ex_io_def ex_model_def
      copy_texture_def fits_int_def INT_MAX_def INT_MIN_def read_face_def read_id_def
      read_ids_def set_map_def set_corners_def)

lemma ex_corner_pairs:
  "corner_pairs ex_mesh ex_atlas = [(0, 0), (1, 1), (2, 2), (0, 3), (2, 2), (3, 4)]"
  by (simp add: corner_pairs_def ex_mesh_def ex_atlas_def corner_vertex_def
      corner_texcoord_def as_index_def)

lemma ex_copy_mesh: "copy_mesh ex_io = ex_mesh"
  by (simp add: copy_mesh_def ex_io_def ex_mesh_def)

lemma ex_prepare:
  "((), ex_mesh) = tex_prepare_mesh ex_ext (mesh_info_init ex_ext (copy_mesh ex_io)) (copy_mesh ex_io)"
  by (simp add: ex_copy_mesh ex_ext_def)

lemma ex_views: "[(), ()] = tex_generate_texture_views ex_ext ex_inp"
  by (simp add: ex_ext_def ex_inp_def)

lemma ex_nf: "2 = length (mesh_faces ex_mesh) div 3"
  by (simp add: ex_mesh_def)

lemma ex_graph:
  "\<lparr>labels = [0, 0], edges = [(0, 1)]\<rparr> =
     tex_build_adjacency_graph ex_ext ex_mesh () (Graph 2)"
  by (simp add: ex_ext_def Graph_def numeral_2_eq_2)

lemma ex_run_stages:
  "run_stages ex_ext ex_conf ex_inp ex_io = Inr (ex_mesh, [ex_atlas, ex_atlas2])"
  unfolding run_stages_eq [OF ex_prepare ex_views ex_nf ex_graph refl]
  by (simp add: resolve_labeling_def make_atlases_def ex_conf_def ex_ext_def)

lemma ex_reconstructTexture:
  "reconstructTexture ex_ext ex_conf ex_inp ex_io = Inr ([], ex_model)"
  by (simp add: reconstructTexture_def ex_run_stages ex_build_model)

lemma ex_run_stages_no_atlas:
  "run_stages ex_ext_no_atlas ex_conf ex_inp ex_io = Inr (ex_mesh, [])"
proof -
  have p: "((), ex_mesh) = tex_prepare_mesh ex_ext_no_atlas
      (mesh_info_init ex_ext_no_atlas (copy_mesh ex_io)) (copy_mesh ex_io)"
    by (simp add: ex_copy_mesh ex_ext_def ex_ext_no_atlas_def)
  show ?thesis
    unfolding run_stages_eq [OF p refl ex_nf refl refl]
    by (simp add: resolve_labeling_def make_atlases_def ex_conf_def ex_ext_def
        ex_ext_no_atlas_def)
qed

lemma ex_well_formed: "well_formed ex_mesh ex_atlas"
proof -
  have "\<forall>i<length (atlas_faces ex_atlas). \<forall>j<3.
      unat (atlas_texcoord_ids ex_atlas ! (i * 3 + j)) < length (atlas_texcoords ex_atlas) \<and>
      valid_vertex_index ex_mesh (corner_vertex ex_mesh ex_atlas i j)"
  proof (intro allI impI)
    fix i j :: nat assume "i < length (atlas_faces ex_atlas)" "j < 3"
    then have "(i = 0 \<or> i = 1) \<and> (j = 0 \<or> j = 1 \<or> j = 2)"
      by (auto simp: ex_atlas_def)
    then show "unat (atlas_texcoord_ids ex_atlas ! (i * 3 + j))
          < length (atlas_texcoords ex_atlas) \<and>
        valid_vertex_index ex_mesh (corner_vertex ex_mesh ex_atlas i j)"
      by (auto simp: valid_vertex_index_def corner_vertex_def ex_mesh_def ex_atlas_def)
  qed
  then show ?thesis
    by (simp add: well_formed_def Let_def INT_MAX_def) (simp add: ex_mesh_def ex_atlas_def)
qed

section \<open>The claims about \<^verbatim>\<open>build_model\<close>\<close>

text \<open>
  The theorems of this section are about the calls of \<open>build_model\<close> that return,
  \<open>build_model mesh (a # rest) out0 = Inr out\<close>. By \<open>build_model_returns\<close> these
  include all calls with a well-formed first atlas.
\<close>

text \<open>
  Claim C3. For a non-empty atlas list on which \<open>build_model\<close> returns, the map from
  texture coordinate indices to vertex indices is the one the corner pairings of the
  first atlas give: every output vertex \<open>v\<close> has the position and the normal that the
  original mesh holds at the mapped vertex index, that index addresses both mesh arrays,
  and when a corner names \<open>v\<close> the pair of the mapped vertex and \<open>v\<close> is one of the
  pairings. Two output vertices can have the same mapped vertex: in the small scene the
  texture coordinates 0 and 3 both map to vertex 0.
\<close>

theorem build_model_vertex_data:
  "(build_model mesh (a # rest) out0 = Inr out \<and> v < length (atlas_texcoords a) \<longrightarrow>
      points out ! v = mesh_vertices mesh ! texcoord_vertex (corner_pairs mesh a) v \<and>
      normals out ! v = mesh_normals mesh ! texcoord_vertex (corner_pairs mesh a) v \<and>
      texcoord_vertex (corner_pairs mesh a) v < length (mesh_vertices mesh) \<and>
      texcoord_vertex (corner_pairs mesh a) v < length (mesh_normals mesh) \<and>
      (v \<in> snd ` set (corner_pairs mesh a) \<longrightarrow>
         (texcoord_vertex (corner_pairs mesh a) v, v) \<in> set (corner_pairs mesh a))) \<and>
   (\<exists>out' v' w'. build_model ex_mesh [ex_atlas] ex_io = Inr out' \<and> v' \<noteq> w' \<and>
      v' < length (points out') \<and> w' < length (points out') \<and>
      texcoord_vertex (corner_pairs ex_mesh ex_atlas) v' =
        texcoord_vertex (corner_pairs ex_mesh ex_atlas) w')"
proof (intro conjI impI)
  assume h: "build_model mesh (a # rest) out0 = Inr out \<and> v < length (atlas_texcoords a)"
  then have v: "v < length (atlas_texcoords a)" by simp
  from h obtain w h td vs ts m ps ns where
    f: "fetch_corners (mesh_faces mesh) (atlas_texcoord_ids a) 0 (atlas_faces a)
          = Inr (vs, ts)"
    and b: "build_map (replicate (length (atlas_texcoords a)) 0) 0 (zip ts vs) = Inr m"
    and gp: "gather VerticesReadOOB (mesh_vertices mesh) 0 m = Inr ps"
    and gn: "gather NormalsReadOOB (mesh_normals mesh) 0 m = Inr ns"
    and out: "out = \<lparr>points = ps, normals = ns, texCoords = atlas_texcoords a,
            triangles = ts, textureWidth = w, textureHeight = h, textureData = td\<rparr>"
    by (auto elim: build_model_Inr)
  have len: "length m = length (atlas_texcoords a)"
    using length_build_map [OF b] by simp
  have e: "nat (sint (m ! v)) = texcoord_vertex (corner_pairs mesh a) v"
    using map_entry [OF f b v] by (simp add: as_index_def)
  from gather_Inr [OF gp] len v e out
  show "points out ! v = mesh_vertices mesh ! texcoord_vertex (corner_pairs mesh a) v"
    and "texcoord_vertex (corner_pairs mesh a) v < length (mesh_vertices mesh)"
    by auto
  from gather_Inr [OF gn] len v e out
  show "normals out ! v = mesh_normals mesh ! texcoord_vertex (corner_pairs mesh a) v"
    and "texcoord_vertex (corner_pairs mesh a) v < length (mesh_normals mesh)"
    by auto
next
  assume "v \<in> snd ` set (corner_pairs mesh a)"
  then show "(texcoord_vertex (corner_pairs mesh a) v, v) \<in> set (corner_pairs mesh a)"
    by (rule texcoord_vertex_paired)
next
  have "build_model ex_mesh [ex_atlas] ex_io = Inr ex_model"
    using ex_build_model by (simp add: build_model_def)
  moreover have "texcoord_vertex (corner_pairs ex_mesh ex_atlas) 0 =
      texcoord_vertex (corner_pairs ex_mesh ex_atlas) 3"
    by (simp add: ex_corner_pairs texcoord_vertex_def)
  moreover have "(0::nat) \<noteq> 3" "0 < length (points ex_model)" "3 < length (points ex_model)"
    by (simp_all add: ex_model_def)
  ultimately show "\<exists>out' v' w'. build_model ex_mesh [ex_atlas] ex_io = Inr out' \<and>
      v' \<noteq> w' \<and> v' < length (points out') \<and> w' < length (points out') \<and>
      texcoord_vertex (corner_pairs ex_mesh ex_atlas) v' =
        texcoord_vertex (corner_pairs ex_mesh ex_atlas) w'"
    by blast
qed

theorem build_model_vertex_data_witness:
  "build_model ex_mesh [ex_atlas, ex_atlas2] ex_io = Inr ex_model \<and>
   (3::nat) < length (atlas_texcoords ex_atlas) \<and>
   texcoord_vertex (corner_pairs ex_mesh ex_atlas) 3 = 0 \<and>
   points ex_model ! 3 = mesh_vertices ex_mesh ! 0 \<and>
   normals ex_model ! 3 = mesh_normals ex_mesh ! 0 \<and>
   points ex_model ! 3 = (10, 11, 12) \<and>
   (0, 3) \<in> set (corner_pairs ex_mesh ex_atlas)"
proof -
  have b: "build_model ex_mesh (ex_atlas # [ex_atlas2]) ex_io = Inr ex_model"
    by (rule ex_build_model)
  have v: "(3::nat) < length (atlas_texcoords ex_atlas)"
    by (simp add: ex_atlas_def)
  have t: "texcoord_vertex (corner_pairs ex_mesh ex_atlas) 3 = 0"
    by (simp add: ex_corner_pairs texcoord_vertex_def)
  have r: "(3::nat) \<in> snd ` set (corner_pairs ex_mesh ex_atlas)"
    by (simp add: ex_corner_pairs)
  from build_model_vertex_data [of ex_mesh ex_atlas "[ex_atlas2]" ex_io ex_model 3] b v r t
  have "points ex_model ! 3 = mesh_vertices ex_mesh ! 0 \<and>
        normals ex_model ! 3 = mesh_normals ex_mesh ! 0 \<and>
        (0, 3) \<in> set (corner_pairs ex_mesh ex_atlas)"
    by simp
  moreover have "points ex_model ! 3 = (10, 11, 12)"
    by (simp add: ex_model_def)
  ultimately show ?thesis using b v t by simp
qed

text \<open>
  Claim C4. When \<open>build_model\<close> returns on a non-empty atlas list, \<open>points\<close>, \<open>normals\<close>
  and \<open>texCoords\<close> have the length of the texture coordinate array of the first atlas,
  \<open>texCoords\<close> is that array, unchanged, and the three arrays are aligned: at every index
  the position and the normal come from one and the same mesh vertex, the one mapped to
  the texture coordinate at that index.
\<close>

theorem build_model_vertex_count:
  "build_model mesh (a # rest) out0 = Inr out \<longrightarrow>
     length (points out) = length (atlas_texcoords a) \<and>
     length (normals out) = length (atlas_texcoords a) \<and>
     length (texCoords out) = length (atlas_texcoords a) \<and>
     texCoords out = atlas_texcoords a \<and>
     (\<forall>v<length (atlas_texcoords a).
        points out ! v = mesh_vertices mesh ! texcoord_vertex (corner_pairs mesh a) v \<and>
        normals out ! v = mesh_normals mesh ! texcoord_vertex (corner_pairs mesh a) v \<and>
        texCoords out ! v = atlas_texcoords a ! v)"
proof
  assume h: "build_model mesh (a # rest) out0 = Inr out"
  then obtain w h td vs ts m ps ns where
    b: "build_map (replicate (length (atlas_texcoords a)) 0) 0 (zip ts vs) = Inr m"
    and gp: "gather VerticesReadOOB (mesh_vertices mesh) 0 m = Inr ps"
    and gn: "gather NormalsReadOOB (mesh_normals mesh) 0 m = Inr ns"
    and out: "out = \<lparr>points = ps, normals = ns, texCoords = atlas_texcoords a,
            triangles = ts, textureWidth = w, textureHeight = h, textureData = td\<rparr>"
    by (auto elim: build_model_Inr)
  have len: "length m = length (atlas_texcoords a)"
    using length_build_map [OF b] by simp
  have lp: "length (points out) = length (atlas_texcoords a)"
    using gather_Inr [OF gp] len out by simp
  have ln: "length (normals out) = length (atlas_texcoords a)"
    using gather_Inr [OF gn] len out by simp
  have tc: "texCoords out = atlas_texcoords a" using out by simp
  have al: "\<forall>v<length (atlas_texcoords a).
        points out ! v = mesh_vertices mesh ! texcoord_vertex (corner_pairs mesh a) v \<and>
        normals out ! v = mesh_normals mesh ! texcoord_vertex (corner_pairs mesh a) v \<and>
        texCoords out ! v = atlas_texcoords a ! v"
    using build_model_gathered(1,2) [OF h] tc by simp
  from lp ln tc al show "length (points out) = length (atlas_texcoords a) \<and>
     length (normals out) = length (atlas_texcoords a) \<and>
     length (texCoords out) = length (atlas_texcoords a) \<and>
     texCoords out = atlas_texcoords a \<and>
     (\<forall>v<length (atlas_texcoords a).
        points out ! v = mesh_vertices mesh ! texcoord_vertex (corner_pairs mesh a) v \<and>
        normals out ! v = mesh_normals mesh ! texcoord_vertex (corner_pairs mesh a) v \<and>
        texCoords out ! v = atlas_texcoords a ! v)"
    by simp
qed

theorem build_model_vertex_count_witness:
  "build_model ex_mesh [ex_atlas, ex_atlas2] ex_io = Inr ex_model \<and>
   length (points ex_model) = 6 \<and> length (normals ex_model) = 6 \<and>
   length (texCoords ex_model) = 6 \<and> length (atlas_texcoords ex_atlas) = 6 \<and>
   texCoords ex_model = atlas_texcoords ex_atlas"
proof -
  have b: "build_model ex_mesh (ex_atlas # [ex_atlas2]) ex_io = Inr ex_model"
    by (rule ex_build_model)
  have n: "length (atlas_texcoords ex_atlas) = 6" by (simp add: ex_atlas_def)
  from build_model_vertex_count [of ex_mesh ex_atlas "[ex_atlas2]" ex_io ex_model] b n
  show ?thesis by simp
qed

text \<open>
  Claim C5. When \<open>build_model\<close> returns on a non-empty atlas list it has emitted one
  triangle for every face of the first atlas, in the order of the atlas faces; component
  \<open>j\<close> of triangle \<open>i\<close> is entry \<open>i * 3 + j\<close> of the atlas's texture coordinate index
  array, narrowed to \<^verbatim>\<open>int\<close>; it is not negative and less than the length of \<open>points\<close>;
  and for an atlas whose texture coordinate indices are all less than the number of its
  texture coordinates the narrowing changes nothing, the component is that index.
\<close>

theorem build_model_triangles:
  "build_model mesh (a # rest) out0 = Inr out \<longrightarrow>
     length (triangles out) = length (atlas_faces a) \<and>
     (\<forall>i<length (atlas_faces a). \<forall>j<3.
        component (triangles out ! i) j = ucast (atlas_texcoord_ids a ! (i * 3 + j)) \<and>
        0 \<le> sint (component (triangles out ! i) j) \<and>
        as_index (component (triangles out ! i) j) < length (points out) \<and>
        ((\<forall>x\<in>set (atlas_texcoord_ids a). unat x < length (atlas_texcoords a)) \<longrightarrow>
           as_index (component (triangles out ! i) j) =
             unat (atlas_texcoord_ids a ! (i * 3 + j))))"
proof
  assume h: "build_model mesh (a # rest) out0 = Inr out"
  then obtain w h td vs ts m ps ns where
    f: "fetch_corners (mesh_faces mesh) (atlas_texcoord_ids a) 0 (atlas_faces a)
          = Inr (vs, ts)"
    and b: "build_map (replicate (length (atlas_texcoords a)) 0) 0 (zip ts vs) = Inr m"
    and gp: "gather VerticesReadOOB (mesh_vertices mesh) 0 m = Inr ps"
    and out: "out = \<lparr>points = ps, normals = ns, texCoords = atlas_texcoords a,
            triangles = ts, textureWidth = w, textureHeight = h, textureData = td\<rparr>"
    by (auto elim: build_model_Inr)
  note fc = fetch_corners_Inr [OF f]
  have len: "length m = length (atlas_texcoords a)"
    using length_build_map [OF b] by simp
  have lp: "length (points out) = length (atlas_texcoords a)"
    using gather_Inr [OF gp] len out by simp
  have small: "int (length (atlas_texcoords a)) \<le> INT_MAX"
    using gather_counter [OF gp] len by (simp add: INT_MAX_def)
  have lt: "length (triangles out) = length (atlas_faces a)"
    using fc out by simp
  have main: "component (triangles out ! i) j = ucast (atlas_texcoord_ids a ! (i * 3 + j)) \<and>
        0 \<le> sint (component (triangles out ! i) j) \<and>
        as_index (component (triangles out ! i) j) < length (points out) \<and>
        ((\<forall>x\<in>set (atlas_texcoord_ids a). unat x < length (atlas_texcoords a)) \<longrightarrow>
           as_index (component (triangles out ! i) j) =
             unat (atlas_texcoord_ids a ! (i * 3 + j)))"
    if i: "i < length (atlas_faces a)" and j: "j < 3" for i j
  proof -
    from fc i have ri: "read_ids (atlas_texcoord_ids a) (int i) = Inr (ts ! i)" by auto
    note r = read_ids_Inr [OF ri]
    have tri: "triangles out ! i =
        (corner_texcoord a i 0, corner_texcoord a i 1, corner_texcoord a i 2)"
      using r out by (simp add: corner_texcoord_def)
    have j3: "j = 0 \<or> j = 1 \<or> j = 2" using j by arith
    have sel: "component (triangles out ! i) j = corner_texcoord a i j"
      using j3 by (auto simp: tri component_def)
    have zk: "zip ts vs ! i = ((corner_texcoord a i 0, corner_texcoord a i 1,
        corner_texcoord a i 2), (corner_vertex mesh a i 0, corner_vertex mesh a i 1,
        corner_vertex mesh a i 2))"
      using i by (simp add: zip_corners [OF f])
    have li: "i < length (zip ts vs)" using fc i by simp
    have "(corner_texcoord a i j, corner_vertex mesh a i j) \<in> set (flat_corners (zip ts vs))"
      using flat_corners_nth_mem [OF li zk] j3 by auto
    with build_map_Inr [OF b] have bound: "0 \<le> sint (corner_texcoord a i j)"
      "nat (sint (corner_texcoord a i j)) < length (atlas_texcoords a)"
      by auto
    have valid: "as_index (corner_texcoord a i j) = unat (atlas_texcoord_ids a ! (i * 3 + j))"
      if v: "\<forall>x\<in>set (atlas_texcoord_ids a). unat x < length (atlas_texcoords a)"
    proof -
      have "i * 3 + j < length (atlas_texcoord_ids a)" using r j by simp
      then have "unat (atlas_texcoord_ids a ! (i * 3 + j)) < length (atlas_texcoords a)"
        using v by simp
      then have "unat (atlas_texcoord_ids a ! (i * 3 + j)) < 2 ^ 31"
        using small by (simp add: INT_MAX_def)
      from narrow_id [OF this] show ?thesis
        by (simp add: as_index_def corner_texcoord_def)
    qed
    show ?thesis
      using sel bound valid lp by (simp add: as_index_def corner_texcoord_def)
  qed
  show "length (triangles out) = length (atlas_faces a) \<and>
     (\<forall>i<length (atlas_faces a). \<forall>j<3.
        component (triangles out ! i) j = ucast (atlas_texcoord_ids a ! (i * 3 + j)) \<and>
        0 \<le> sint (component (triangles out ! i) j) \<and>
        as_index (component (triangles out ! i) j) < length (points out) \<and>
        ((\<forall>x\<in>set (atlas_texcoord_ids a). unat x < length (atlas_texcoords a)) \<longrightarrow>
           as_index (component (triangles out ! i) j) =
             unat (atlas_texcoord_ids a ! (i * 3 + j))))"
    using lt main by blast
qed

theorem build_model_triangles_witness:
  "build_model ex_mesh [ex_atlas, ex_atlas2] ex_io = Inr ex_model \<and>
   length (triangles ex_model) = 2 \<and> length (atlas_faces ex_atlas) = 2 \<and>
   triangles ex_model ! 1 = (3, 2, 4) \<and>
   component (triangles ex_model ! 1) 2 = ucast (atlas_texcoord_ids ex_atlas ! 5) \<and>
   as_index (component (triangles ex_model ! 1) 2) = 4 \<and>
   unat (atlas_texcoord_ids ex_atlas ! 5) = 4 \<and>
   as_index (component (triangles ex_model ! 1) 2) < length (points ex_model)"
proof -
  have b: "build_model ex_mesh (ex_atlas # [ex_atlas2]) ex_io = Inr ex_model"
    by (rule ex_build_model)
  have n: "length (atlas_faces ex_atlas) = 2" "(1::nat) < 2" "(2::nat) < 3"
    by (simp_all add: ex_atlas_def)
  have v: "\<forall>x\<in>set (atlas_texcoord_ids ex_atlas). unat x < length (atlas_texcoords ex_atlas)"
    by (simp add: ex_atlas_def)
  have u: "unat (atlas_texcoord_ids ex_atlas ! 5) = 4" by (simp add: ex_atlas_def)
  have t: "triangles ex_model ! 1 = (3, 2, 4)" by (simp add: ex_model_def)
  note T = build_model_triangles [of ex_mesh ex_atlas "[ex_atlas2]" ex_io ex_model,
      THEN mp, OF b]
  from T have l: "length (triangles ex_model) = length (atlas_faces ex_atlas)"
    by (rule conjunct1)
  have i: "1 < length (atlas_faces ex_atlas)" using n by simp
  from T [THEN conjunct2, rule_format, OF i n(3)] v
  have c: "component (triangles ex_model ! 1) 2
          = ucast (atlas_texcoord_ids ex_atlas ! (1 * 3 + 2)) \<and>
        0 \<le> sint (component (triangles ex_model ! 1) 2) \<and>
        as_index (component (triangles ex_model ! 1) 2) < length (points ex_model) \<and>
        as_index (component (triangles ex_model ! 1) 2) =
             unat (atlas_texcoord_ids ex_atlas ! (1 * 3 + 2))"
    by blast
  have e: "(1::nat) * 3 + 2 = 5" by simp
  note c' = c [unfolded e]
  have f1: "length (triangles ex_model) = 2" using l n(1) by simp
  note f2 = c' [THEN conjunct1]
  note f3 = trans [OF c' [THEN conjunct2, THEN conjunct2, THEN conjunct2] u]
  note f4 = c' [THEN conjunct2, THEN conjunct2, THEN conjunct1]
  have f0: "build_model ex_mesh [ex_atlas, ex_atlas2] ex_io = Inr ex_model"
    by (rule b)
  note f5 = n(1)
  show ?thesis
    by (intro conjI) (fact f0 f1 f5 t f2 f3 u f4)+
qed

text \<open>
  Claim C6, as the code has it. With an empty atlas list \<open>build_model\<close> skips its whole
  body: it returns without a fault and every output parameter holds what it held on
  entry. The model is therefore empty exactly when the caller passed empty buffers.
\<close>

theorem build_model_no_atlas:
  "build_model mesh [] out0 = Inr out0"
  by (simp add: build_model_def)

text \<open>
  The claim as written, that the four arrays are empty after the call, fails when they
  were not empty before it: here the input mesh of the small scene is still in them.
\<close>

theorem build_model_no_atlas_counterexample:
  "build_model ex_mesh [] ex_io = Inr ex_io \<and>
   points ex_io \<noteq> [] \<and> normals ex_io \<noteq> [] \<and> texCoords ex_io \<noteq> [] \<and>
   triangles ex_io \<noteq> [] \<and> length (points ex_io) = 4 \<and> length (triangles ex_io) = 2"
  by (simp add: build_model_def ex_io_def)

text \<open>
  Claim C7. When \<open>build_model\<close> returns on a non-empty atlas list, \<open>textureWidth\<close> and
  \<open>textureHeight\<close> are the dimensions of the image of the first atlas, \<open>textureData\<close> has
  width times height times 3 bytes, and these are the first bytes of that image, in
  order. The atlases after the first have no influence on the result of the call, and
  neither has the previous content of the output parameters.
\<close>

theorem build_model_texture:
  "(build_model mesh (a # rest) out0 = Inr out \<longrightarrow>
      textureWidth out = width (atlas_image a) \<and>
      textureHeight out = height (atlas_image a) \<and>
      int (length (textureData out)) =
        sint (width (atlas_image a)) * sint (height (atlas_image a)) * 3 \<and>
      textureData out = take (length (textureData out)) (image_data (atlas_image a)) \<and>
      length (textureData out) \<le> length (image_data (atlas_image a))) \<and>
   build_model mesh (a # rest) out0 = build_model mesh [a] out0'"
proof (intro conjI impI)
  assume h: "build_model mesh (a # rest) out0 = Inr out"
  then obtain w h td vs ts m ps ns where
    c: "copy_texture (atlas_image a) = Inr (w, h, td)"
    and out: "out = \<lparr>points = ps, normals = ns, texCoords = atlas_texcoords a,
            triangles = ts, textureWidth = w, textureHeight = h, textureData = td\<rparr>"
    by (auto elim: build_model_Inr)
  note t = copy_texture_Inr [OF c]
  show "textureWidth out = width (atlas_image a)" using t out by simp
  show "textureHeight out = height (atlas_image a)" using t out by simp
  show "int (length (textureData out)) =
        sint (width (atlas_image a)) * sint (height (atlas_image a)) * 3"
    using t(4,5) out by simp
  show "textureData out = take (length (textureData out)) (image_data (atlas_image a))"
    using t(3,4) out by simp
  show "length (textureData out) \<le> length (image_data (atlas_image a))"
    using c out by (auto simp: copy_texture_def Let_def split: if_splits)
next
  show "build_model mesh (a # rest) out0 = build_model mesh [a] out0'"
    by (simp add: build_model_def)
qed

theorem build_model_texture_witness:
  "build_model ex_mesh [ex_atlas, ex_atlas2] ex_io = Inr ex_model \<and>
   build_model ex_mesh [ex_atlas] ex_model = Inr ex_model \<and>
   textureWidth ex_model = 2 \<and> textureHeight ex_model = 1 \<and>
   length (textureData ex_model) = 6 \<and>
   textureData ex_model = image_data (atlas_image ex_atlas)"
proof -
  have b: "build_model ex_mesh (ex_atlas # [ex_atlas2]) ex_io = Inr ex_model"
    by (rule ex_build_model)
  have i: "width (atlas_image ex_atlas) = 2" "height (atlas_image ex_atlas) = 1"
    "image_data (atlas_image ex_atlas) = [1, 2, 3, 4, 5, 6]"
    by (simp_all add: ex_atlas_def)
  from build_model_texture [of ex_mesh ex_atlas "[ex_atlas2]" ex_io ex_model ex_model] b
  have "textureWidth ex_model = width (atlas_image ex_atlas)"
    "textureHeight ex_model = height (atlas_image ex_atlas)"
    "int (length (textureData ex_model)) =
        sint (width (atlas_image ex_atlas)) * sint (height (atlas_image ex_atlas)) * 3"
    "textureData ex_model =
        take (length (textureData ex_model)) (image_data (atlas_image ex_atlas))"
    "build_model ex_mesh [ex_atlas] ex_model = Inr ex_model"
    by simp_all
  then show ?thesis using b i by simp
qed

text \<open>
  Claim C10. The map starts as zeros, so when \<open>build_model\<close> returns, an output vertex
  whose texture coordinate index no corner of an atlas face names has the position and
  the normal of mesh vertex 0. And when the mesh has a vertex and a normal and every
  vertex index that a corner of an atlas face refers to is valid, no read of a position
  or of a normal is out of bounds: \<open>build_model\<close> ends in neither of these two faults.
  (An invalid texture coordinate index is a fault of its own, \<open>MapWriteOOB\<close>, before the
  reads.)
\<close>

theorem build_model_unreferenced:
  "(build_model mesh (a # rest) out0 = Inr out \<and> v < length (atlas_texcoords a) \<and>
      v \<notin> snd ` set (corner_pairs mesh a) \<longrightarrow>
        points out ! v = mesh_vertices mesh ! 0 \<and> normals out ! v = mesh_normals mesh ! 0 \<and>
        0 < length (mesh_vertices mesh) \<and> 0 < length (mesh_normals mesh)) \<and>
   (mesh_vertices mesh \<noteq> [] \<and> mesh_normals mesh \<noteq> [] \<and>
      (\<forall>i<length (atlas_faces a). \<forall>j<3.
         valid_vertex_index mesh (corner_vertex mesh a i j)) \<longrightarrow>
        build_model mesh (a # rest) out0 \<noteq> Inl VerticesReadOOB \<and>
        build_model mesh (a # rest) out0 \<noteq> Inl NormalsReadOOB)"
proof (intro conjI impI)
  assume h: "build_model mesh (a # rest) out0 = Inr out \<and> v < length (atlas_texcoords a) \<and>
      v \<notin> snd ` set (corner_pairs mesh a)"
  then have z: "texcoord_vertex (corner_pairs mesh a) v = 0"
    by (simp add: texcoord_vertex_unpaired)
  from h have "build_model mesh (a # rest) out0 = Inr out" "v < length (atlas_texcoords a)"
    by simp_all
  from build_model_gathered [OF this] z
  show "points out ! v = mesh_vertices mesh ! 0" "normals out ! v = mesh_normals mesh ! 0"
    "0 < length (mesh_vertices mesh)" "0 < length (mesh_normals mesh)"
    by simp_all
next
  assume h: "mesh_vertices mesh \<noteq> [] \<and> mesh_normals mesh \<noteq> [] \<and>
      (\<forall>i<length (atlas_faces a). \<forall>j<3. valid_vertex_index mesh (corner_vertex mesh a i j))"
  have no: "build_model mesh (a # rest) out0 \<noteq> Inl e"
    if e: "e = VerticesReadOOB \<or> e = NormalsReadOOB" for e
  proof
    assume bad: "build_model mesh (a # rest) out0 = Inl e"
    have c: "copy_texture (atlas_image a) \<noteq> Inl e"
      using e copy_texture_faults [of "atlas_image a" e] by auto
    have f: "fetch_corners (mesh_faces mesh) (atlas_texcoord_ids a) 0 (atlas_faces a)
        \<noteq> Inl e"
      using e fetch_corners_faults [of "mesh_faces mesh" "atlas_texcoord_ids a" 0
          "atlas_faces a" e] by auto
    from build_model_Inl [OF bad] c f obtain vs ts m where
      f: "fetch_corners (mesh_faces mesh) (atlas_texcoord_ids a) 0 (atlas_faces a)
            = Inr (vs, ts)"
      and b: "build_map (replicate (length (atlas_texcoords a)) 0) 0 (zip ts vs) = Inl e \<or>
        build_map (replicate (length (atlas_texcoords a)) 0) 0 (zip ts vs) = Inr m \<and>
           (gather VerticesReadOOB (mesh_vertices mesh) 0 m = Inl e \<or>
            gather NormalsReadOOB (mesh_normals mesh) 0 m = Inl e)"
      by blast
    have "build_map (replicate (length (atlas_texcoords a)) 0) 0 (zip ts vs) \<noteq> Inl e"
      using e build_map_faults [of "replicate (length (atlas_texcoords a)) 0" 0
          "zip ts vs" e] by auto
    with b have b: "build_map (replicate (length (atlas_texcoords a)) 0) 0 (zip ts vs) = Inr m"
      and g: "gather VerticesReadOOB (mesh_vertices mesh) 0 m = Inl e \<or>
            gather NormalsReadOOB (mesh_normals mesh) 0 m = Inl e"
      by auto
    have "valid_vertex_index mesh k" if "k \<in> set m" for k
      using map_entries_valid [OF f b _ _ _ that] h by blast
    then have ok: "\<forall>k\<in>set m. 0 \<le> sint k \<and> nat (sint k) < length (mesh_vertices mesh)"
      "\<forall>k\<in>set m. 0 \<le> sint k \<and> nat (sint k) < length (mesh_normals mesh)"
      by (simp_all add: valid_vertex_index_def)
    have gv: "gather VerticesReadOOB (mesh_vertices mesh) 0 m \<noteq> Inl VerticesReadOOB"
      using gather_defined [OF ok(1), of VerticesReadOOB 0] by simp
    have gn: "gather NormalsReadOOB (mesh_normals mesh) 0 m \<noteq> Inl NormalsReadOOB"
      using gather_defined [OF ok(2), of NormalsReadOOB 0] by simp
    from g show False
    proof
      assume x: "gather VerticesReadOOB (mesh_vertices mesh) 0 m = Inl e"
      from gather_faults [OF x] e gv x show False by auto
    next
      assume x: "gather NormalsReadOOB (mesh_normals mesh) 0 m = Inl e"
      from gather_faults [OF x] e gn x show False by auto
    qed
  qed
  show "build_model mesh (a # rest) out0 \<noteq> Inl VerticesReadOOB"
    "build_model mesh (a # rest) out0 \<noteq> Inl NormalsReadOOB"
    using no by simp_all
qed

theorem build_model_unreferenced_witness:
  "build_model ex_mesh [ex_atlas, ex_atlas2] ex_io = Inr ex_model \<and>
   (5::nat) < length (atlas_texcoords ex_atlas) \<and>
   5 \<notin> snd ` set (corner_pairs ex_mesh ex_atlas) \<and>
   points ex_model ! 5 = mesh_vertices ex_mesh ! 0 \<and>
   normals ex_model ! 5 = mesh_normals ex_mesh ! 0 \<and>
   points ex_model ! 5 = (10, 11, 12) \<and> normals ex_model ! 5 = (1, 0, 0) \<and>
   mesh_vertices ex_mesh \<noteq> [] \<and> mesh_normals ex_mesh \<noteq> [] \<and>
   valid_vertex_index ex_mesh (corner_vertex ex_mesh ex_atlas 1 2) \<and>
   build_model ex_mesh [ex_atlas, ex_atlas2] ex_io \<noteq> Inl VerticesReadOOB \<and>
   build_model ex_mesh [ex_atlas, ex_atlas2] ex_io \<noteq> Inl NormalsReadOOB"
proof -
  have b: "build_model ex_mesh (ex_atlas # [ex_atlas2]) ex_io = Inr ex_model"
    by (rule ex_build_model)
  have v: "(5::nat) < length (atlas_texcoords ex_atlas)"
    by (simp add: ex_atlas_def)
  have u: "5 \<notin> snd ` set (corner_pairs ex_mesh ex_atlas)"
    by (simp add: ex_corner_pairs)
  have ne: "mesh_vertices ex_mesh \<noteq> []" "mesh_normals ex_mesh \<noteq> []"
    by (simp_all add: ex_mesh_def)
  have val: "\<forall>i<length (atlas_faces ex_atlas). \<forall>j<3.
      valid_vertex_index ex_mesh (corner_vertex ex_mesh ex_atlas i j)"
  proof (intro allI impI)
    fix i j :: nat assume "i < length (atlas_faces ex_atlas)" "j < 3"
    then have "(i = 0 \<or> i = 1) \<and> (j = 0 \<or> j = 1 \<or> j = 2)"
      by (auto simp: ex_atlas_def)
    then show "valid_vertex_index ex_mesh (corner_vertex ex_mesh ex_atlas i j)"
      by (auto simp: valid_vertex_index_def corner_vertex_def ex_mesh_def ex_atlas_def)
  qed
  have val12: "valid_vertex_index ex_mesh (corner_vertex ex_mesh ex_atlas 1 2)"
    using val by (simp add: ex_atlas_def)
  have p: "points ex_model ! 5 = (10, 11, 12)" "normals ex_model ! 5 = (1, 0, 0)"
    by (simp_all add: ex_model_def)
  from build_model_unreferenced [of ex_mesh ex_atlas "[ex_atlas2]" ex_io ex_model 5]
    b v u ne val
  have "points ex_model ! 5 = mesh_vertices ex_mesh ! 0"
    "normals ex_model ! 5 = mesh_normals ex_mesh ! 0"
    "build_model ex_mesh [ex_atlas, ex_atlas2] ex_io \<noteq> Inl VerticesReadOOB"
    "build_model ex_mesh [ex_atlas, ex_atlas2] ex_io \<noteq> Inl NormalsReadOOB"
    by simp_all
  then show ?thesis using b v u ne val12 p by simp
qed

section \<open>The claims about the labeling override\<close>

text \<open>
  Claim C1. A loaded label vector passes the override block, in \<^verbatim>\<open>main\<close> as in
  \<^verbatim>\<open>reconstructTexture\<close>, exactly when it has one entry per graph node and every entry is
  at most \<open>K\<close>, the number of texture views; otherwise the block ends in the labeling
  mismatch: the process exits in \<^verbatim>\<open>main\<close>, the message is returned in
  \<^verbatim>\<open>reconstructTexture\<close>. So a vector of the right length with the entry \<open>K\<close> everywhere
  passes, and a vector with an entry of \<open>K + 1\<close> or more does not. A vector that passes
  is then the label list of the graph.
\<close>

theorem load_labeling_valid:
  "((\<exists>g'. load_labeling K L g = Transferred g') \<longleftrightarrow>
      (length L = num_nodes g \<and> (\<forall>l\<in>set L. l \<le> K))) \<and>
   ((\<exists>g'. load_labeling K L g = Mismatch g') \<longleftrightarrow>
      \<not> (length L = num_nodes g \<and> (\<forall>l\<in>set L. l \<le> K))) \<and>
   (load_labeling K L g = Transferred g' \<longrightarrow> labels g' = L \<and> edges g' = edges g) \<and>
   ((\<exists>g'. main_load_labeling K L g = Continues g') \<longleftrightarrow>
      (length L = num_nodes g \<and> (\<forall>l\<in>set L. l \<le> K))) \<and>
   (main_load_labeling K L g = ExitFailure (wrong_labeling @ [newline]) \<longleftrightarrow>
      \<not> (length L = num_nodes g \<and> (\<forall>l\<in>set L. l \<le> K))) \<and>
   (labeling_file conf \<noteq> [] \<and> L = vector_from_file ext (labeling_file conf) \<and>
      K = length tvs \<longrightarrow>
      ((\<exists>r. resolve_labeling ext conf mesh tvs nf g = Inr r) \<longleftrightarrow>
         (length L = num_nodes g \<and> (\<forall>l\<in>set L. l \<le> K))) \<and>
      (resolve_labeling ext conf mesh tvs nf g = Inl (wrong_labeling @ [newline] @ [newline])
         \<longleftrightarrow> \<not> (length L = num_nodes g \<and> (\<forall>l\<in>set L. l \<le> K)))) \<and>
   (\<exists>g'. load_labeling K (replicate (num_nodes g) K) g = Transferred g') \<and>
   (l \<in> set L \<and> K + 1 \<le> l \<longrightarrow> (\<exists>g'. load_labeling K L g = Mismatch g'))"
proof -
  let ?valid = "length L = num_nodes g \<and> (\<forall>l\<in>set L. l \<le> K)"
  have fb: "first_bad K L = length L \<longleftrightarrow> (\<forall>l\<in>set L. l \<le> K)"
    by (rule first_bad_all)
  have t: "(\<exists>g'. load_labeling K L g = Transferred g') \<longleftrightarrow> ?valid"
    unfolding load_labeling_eq fb [symmetric] by auto
  have m: "(\<exists>g'. load_labeling K L g = Mismatch g') \<longleftrightarrow> \<not> ?valid"
    unfolding load_labeling_eq fb [symmetric] by auto
  have c: "load_labeling K L g = Transferred g' \<longrightarrow> labels g' = L \<and> edges g' = edges g"
    by (auto simp: load_labeling_eq split: if_splits)
  have mc: "(\<exists>g'. main_load_labeling K L g = Continues g') \<longleftrightarrow> ?valid"
    using t m by (cases "load_labeling K L g") (auto simp: main_load_labeling_def)
  have me: "main_load_labeling K L g = ExitFailure (wrong_labeling @ [newline]) \<longleftrightarrow> \<not> ?valid"
    using t m by (cases "load_labeling K L g") (auto simp: main_load_labeling_def)
  have lib: "((\<exists>r. resolve_labeling ext conf mesh tvs nf g = Inr r) \<longleftrightarrow> ?valid) \<and>
      (resolve_labeling ext conf mesh tvs nf g = Inl (wrong_labeling @ [newline] @ [newline])
         \<longleftrightarrow> \<not> ?valid)"
    if "labeling_file conf \<noteq> [] \<and> L = vector_from_file ext (labeling_file conf) \<and>
      K = length tvs"
    using that t m
    by (cases "load_labeling K L g") (auto simp: resolve_labeling_def)
  have "first_bad K (replicate (num_nodes g) K) = length (replicate (num_nodes g) K)"
    unfolding first_bad_all by simp
  then have k: "\<exists>g'. load_labeling K (replicate (num_nodes g) K) g = Transferred g'"
    by (simp add: load_labeling_eq)
  have "l \<in> set L \<and> K + 1 \<le> l \<longrightarrow> \<not> ?valid"
    by force
  with m have r: "l \<in> set L \<and> K + 1 \<le> l \<longrightarrow> (\<exists>g'. load_labeling K L g = Mismatch g')"
    by simp
  from t m c mc me lib k r show ?thesis by blast
qed

theorem load_labeling_valid_witness:
  "(\<exists>g'. load_labeling 2 [1, 1, 2, 2] (Graph 4) = Transferred g') \<and>
   length [1, 1, 2, 2 :: nat] = num_nodes (Graph 4) \<and>
   list_all (\<lambda>l. l \<le> 2) [1, 1, 2, 2 :: nat] \<and>
   (\<exists>g'. main_load_labeling 2 [1, 1, 2, 2] (Graph 4) = Continues g') \<and>
   (3::nat) \<in> set [1, 1, 3, 2] \<and> (2::nat) + 1 \<le> 3 \<and>
   (\<exists>g'. load_labeling 2 [1, 1, 3, 2] (Graph 4) = Mismatch g') \<and>
   main_load_labeling 2 [1, 1, 3, 2] (Graph 4) = ExitFailure (wrong_labeling @ [newline]) \<and>
   (\<exists>g'. load_labeling 2 [1, 1, 2] (Graph 4) = Mismatch g') \<and>
   labeling_file (ex_conf\<lparr>labeling_file := ''labels.vec''\<rparr>) \<noteq> [] \<and>
   [1, 3] = vector_from_file ex_ext (labeling_file (ex_conf\<lparr>labeling_file := ''labels.vec''\<rparr>)) \<and>
   resolve_labeling ex_ext (ex_conf\<lparr>labeling_file := ''labels.vec''\<rparr>) ex_mesh [(), ()] 2
       (Graph 2) = Inl (wrong_labeling @ [newline] @ [newline])"
proof -
  have ok: "length [1, 1, 2, 2 :: nat] = num_nodes (Graph 4) \<and>
      (\<forall>l\<in>set [1, 1, 2, 2 :: nat]. l \<le> 2)"
    by (simp add: num_nodes_def Graph_def)
  have in3: "(3::nat) \<in> set [1, 1, 3, 2] \<and> (2::nat) + 1 \<le> 3" by simp
  have bad: "\<not> (length [1, 1, 3, 2 :: nat] = num_nodes (Graph 4) \<and>
      (\<forall>l\<in>set [1, 1, 3, 2 :: nat]. l \<le> 2))"
    by simp
  have short: "\<not> (length [1, 1, 2 :: nat] = num_nodes (Graph 4) \<and>
      (\<forall>l\<in>set [1, 1, 2 :: nat]. l \<le> 2))"
    by (simp add: num_nodes_def Graph_def)
  have lf: "labeling_file (ex_conf\<lparr>labeling_file := ''labels.vec''\<rparr>) \<noteq> []"
    and vf: "[1, 3] = vector_from_file ex_ext
      (labeling_file (ex_conf\<lparr>labeling_file := ''labels.vec''\<rparr>))"
    and k: "(2::nat) = length [(), ()]"
    by (simp_all add: ex_ext_def)
  have bad2: "\<not> (length [1, 3 :: nat] = num_nodes (Graph 2) \<and>
      (\<forall>l\<in>set [1, 3 :: nat]. l \<le> 2))"
    by simp
  note a = load_labeling_valid [where K = 2 and L = "[1, 1, 2, 2]" and g = "Graph 4"]
  note b = load_labeling_valid [where K = 2 and L = "[1, 1, 3, 2]" and g = "Graph 4"
      and l = 3]
  note c = load_labeling_valid [where K = 2 and L = "[1, 1, 2]" and g = "Graph 4"]
  note d = load_labeling_valid [where K = 2 and L = "[1, 3]" and g = "Graph 2"
      and ext = ex_ext and conf = "ex_conf\<lparr>labeling_file := ''labels.vec''\<rparr>"
      and tvs = "[(), ()]" and mesh = ex_mesh and nf = 2]
  have 1: "\<exists>g'. load_labeling 2 [1, 1, 2, 2] (Graph 4) = Transferred g'"
    using a ok by blast
  have 2: "\<exists>g'. main_load_labeling 2 [1, 1, 2, 2] (Graph 4) = Continues g'"
    using a ok by blast
  have 3: "\<exists>g'. load_labeling 2 [1, 1, 3, 2] (Graph 4) = Mismatch g'"
    using b in3 by blast
  have 4: "main_load_labeling 2 [1, 1, 3, 2] (Graph 4) = ExitFailure (wrong_labeling @ [newline])"
    using b bad by blast
  have 5: "\<exists>g'. load_labeling 2 [1, 1, 2] (Graph 4) = Mismatch g'"
    using c short by blast
  have 6: "resolve_labeling ex_ext (ex_conf\<lparr>labeling_file := ''labels.vec''\<rparr>) ex_mesh
      [(), ()] 2 (Graph 2) = Inl (wrong_labeling @ [newline] @ [newline])"
    using d lf vf k bad2 by blast
  from 1 2 3 4 5 6 ok in3 lf vf show ?thesis by simp
qed

text \<open>
  Claim C2, as the code has it. The size check comes before the loop, so a vector of the
  wrong length leaves the graph as it was. The range check is inside the transfer loop:
  when the first entry greater than \<open>K\<close> stands at position \<open>p\<close> of a vector of the
  right length, the mismatch is signalled with the \<open>p\<close> entries before it already
  written to the nodes 0 to \<open>p - 1\<close>; the labels from node \<open>p\<close> on and the adjacency
  are as they were.
\<close>

theorem load_labeling_mismatch_graph:
  "load_labeling K L g = Mismatch g' \<longrightarrow>
     edges g' = edges g \<and>
     (length L \<noteq> num_nodes g \<longrightarrow> g' = g) \<and>
     (length L = num_nodes g \<longrightarrow>
        (\<exists>p<length L. K < L ! p \<and> (\<forall>q<p. L ! q \<le> K) \<and>
           labels g' = take p L @ drop p (labels g)))"
proof
  assume h: "load_labeling K L g = Mismatch g'"
  show "edges g' = edges g \<and>
     (length L \<noteq> num_nodes g \<longrightarrow> g' = g) \<and>
     (length L = num_nodes g \<longrightarrow>
        (\<exists>p<length L. K < L ! p \<and> (\<forall>q<p. L ! q \<le> K) \<and>
           labels g' = take p L @ drop p (labels g)))"
  proof (cases "length L = num_nodes g")
    case False
    then show ?thesis using h by (simp add: load_labeling_def)
  next
    case True
    let ?p = "first_bad K L"
    from h True have ne: "?p \<noteq> length L"
      and g': "g' = g\<lparr>labels := take ?p L @ drop ?p (labels g)\<rparr>"
      by (auto simp: load_labeling_eq split: if_splits)
    from ne first_bad_le [of K L] have lt: "?p < length L" by simp
    have "K < L ! ?p" using lt by (rule first_bad_nth)
    moreover have "\<forall>q<?p. L ! q \<le> K" using first_bad_before by blast
    moreover have "labels g' = take ?p L @ drop ?p (labels g)" using g' by simp
    ultimately have "\<exists>p<length L. K < L ! p \<and> (\<forall>q<p. L ! q \<le> K) \<and>
           labels g' = take p L @ drop p (labels g)"
      using lt by blast
    then show ?thesis using True g' by simp
  qed
qed

text \<open>
  The claim as written, that no label has changed when the failure is signalled, fails
  for two views and the vector 1, 3 on a fresh graph of two nodes: node 0 has the label
  1 by then.
\<close>

theorem load_labeling_mismatch_graph_counterexample:
  "load_labeling 2 [1, 3] (Graph 2) = Mismatch \<lparr>labels = [1, 0], edges = []\<rparr> \<and>
   labels (Graph 2) = [0, 0] \<and> \<lparr>labels = [1, 0], edges = []\<rparr> \<noteq> Graph 2"
  by (simp add: load_labeling_def num_nodes_def Graph_def set_label_def numeral_2_eq_2)

theorem load_labeling_mismatch_graph_witness:
  "load_labeling 2 [1, 3] (Graph 2) = Mismatch \<lparr>labels = [1, 0], edges = []\<rparr> \<and>
   length [1, 3 :: nat] = num_nodes (Graph 2) \<and>
   (\<exists>p<length [1, 3 :: nat]. 2 < [1, 3 :: nat] ! p \<and> list_all (\<lambda>q. [1, 3 :: nat] ! q \<le> 2) [0..<p] \<and>
      [1, 0] = take p [1, 3] @ drop p (labels (Graph 2))) \<and>
   length [1 :: nat] \<noteq> num_nodes (Graph 2) \<and>
   load_labeling 2 [1] (Graph 2) = Mismatch (Graph 2)"
proof -
  have m: "load_labeling 2 [1, 3] (Graph 2) = Mismatch \<lparr>labels = [1, 0], edges = []\<rparr>"
    by (simp add: load_labeling_def num_nodes_def Graph_def set_label_def numeral_2_eq_2)
  have n: "length [1, 3 :: nat] = num_nodes (Graph 2)"
    by (simp add: num_nodes_def Graph_def)
  from load_labeling_mismatch_graph [of 2 "[1, 3]" "Graph 2"
      "\<lparr>labels = [1, 0], edges = []\<rparr>"] m n
  have "\<exists>p<length [1, 3 :: nat]. 2 < [1, 3 :: nat] ! p \<and> (\<forall>q<p. [1, 3 :: nat] ! q \<le> 2) \<and>
      labels \<lparr>labels = [1, 0], edges = []\<rparr> = take p [1, 3] @ drop p (labels (Graph 2))"
    by blast
  then have e: "\<exists>p<length [1, 3 :: nat]. 2 < [1, 3 :: nat] ! p \<and>
      list_all (\<lambda>q. [1, 3 :: nat] ! q \<le> 2) [0..<p] \<and>
      [1, 0] = take p [1, 3] @ drop p (labels (Graph 2))"
    by (auto simp: list_all_iff)
  have w: "length [1 :: nat] \<noteq> num_nodes (Graph 2)"
    by (simp add: num_nodes_def Graph_def)
  obtain g' where s: "load_labeling 2 [1] (Graph 2) = Mismatch g'"
    using w by (auto simp: load_labeling_def)
  from load_labeling_mismatch_graph [of 2 "[1]" "Graph 2" g'] s w
  have "g' = Graph 2" by blast
  with s have s': "load_labeling 2 [1] (Graph 2) = Mismatch (Graph 2)" by simp
  from m n e w s' show ?thesis by blast
qed

section \<open>The claims about \<^verbatim>\<open>reconstructTexture\<close>\<close>

text \<open>
  Claim C8. Let the mesh, the views, the graph and the loaded label vector be what the
  stages before the labeling produce. If the cost file is named and cannot be loaded,
  if the label vector has the wrong length, or if it has an entry greater than the
  number of views, \<open>reconstructTexture\<close> returns, with a string that is not empty (and
  with the in/out parameters untouched). In every other case it has passed the labeling,
  and then it either returns the empty string or its call of \<open>build_model\<close> ends in a
  fault. No path of \<open>reconstructTexture\<close> ends the process.
\<close>

theorem reconstructTexture_result:
  assumes pm: "(mesh_info, mesh) =
      tex_prepare_mesh ext (mesh_info_init ext (copy_mesh io)) (copy_mesh io)"
    and tvs: "tvs = tex_generate_texture_views ext inp"
    and nf: "nf = length (mesh_faces mesh) div 3"
    and g: "g = tex_build_adjacency_graph ext mesh mesh_info (Graph nf)"
    and L: "L = vector_from_file ext (labeling_file conf0)"
  shows
   "(labeling_file conf0 = [] \<and> data_cost_file conf0 \<noteq> [] \<and>
       tex_load_from_file ext (data_cost_file conf0) (data_costs_init ext nf (length tvs))
         = Inl what \<longrightarrow>
       reconstructTexture ext conf0 inp io
         = Inr (''failed!'' @ [newline] @ what @ [newline], io) \<and>
       ''failed!'' @ [newline] @ what @ [newline] \<noteq> []) \<and>
    (labeling_file conf0 \<noteq> [] \<and> length L \<noteq> num_nodes g \<longrightarrow>
       reconstructTexture ext conf0 inp io = Inr (wrong_labeling @ [newline] @ [newline], io) \<and>
       wrong_labeling @ [newline] @ [newline] \<noteq> []) \<and>
    (labeling_file conf0 \<noteq> [] \<and> length L = num_nodes g \<and> (\<exists>l\<in>set L. length tvs < l) \<longrightarrow>
       reconstructTexture ext conf0 inp io = Inr (wrong_labeling @ [newline] @ [newline], io) \<and>
       wrong_labeling @ [newline] @ [newline] \<noteq> []) \<and>
    ((labeling_file conf0 = [] \<and>
        (data_cost_file conf0 = [] \<or>
         (\<exists>dc. tex_load_from_file ext (data_cost_file conf0)
                  (data_costs_init ext nf (length tvs)) = Inr dc))) \<or>
      (labeling_file conf0 \<noteq> [] \<and> length L = num_nodes g \<and>
         (\<forall>l\<in>set L. l \<le> length tvs)) \<longrightarrow>
       (\<exists>f. reconstructTexture ext conf0 inp io = Inl f) \<or>
       (\<exists>out. reconstructTexture ext conf0 inp io = Inr ([], out)))"
proof -
  define conf where "conf = conf0\<lparr>out_prefix := ''textured'', write_timings := False,
                       write_intermediate_results := False,
                       write_view_selection_model := False\<rparr>"
  have rs: "run_stages ext conf0 inp io =
     (case resolve_labeling ext conf0 mesh tvs nf g of
        Inl msg \<Rightarrow> Inl msg
      | Inr (tvs', g') \<Rightarrow> Inr (mesh, make_atlases ext conf g' mesh mesh_info tvs'))"
    using run_stages_eq [OF pm tvs nf g conf_def]
    by (simp add: conf_def resolve_labeling_conf)
  have early: "reconstructTexture ext conf0 inp io = Inr (msg, io)"
    if "resolve_labeling ext conf0 mesh tvs nf g = Inl msg" for msg
    using that rs by (simp add: reconstructTexture_def)
  have late: "(\<exists>f. reconstructTexture ext conf0 inp io = Inl f) \<or>
       (\<exists>out. reconstructTexture ext conf0 inp io = Inr ([], out))"
    if "resolve_labeling ext conf0 mesh tvs nf g = Inr r" for r
    using that rs reconstructTexture_cases [of ext conf0 inp io]
    by (auto split: prod.splits)
  have 1: "reconstructTexture ext conf0 inp io
         = Inr (''failed!'' @ [newline] @ what @ [newline], io) \<and>
       ''failed!'' @ [newline] @ what @ [newline] \<noteq> []"
    if "labeling_file conf0 = [] \<and> data_cost_file conf0 \<noteq> [] \<and>
       tex_load_from_file ext (data_cost_file conf0) (data_costs_init ext nf (length tvs))
         = Inl what"
  proof -
    from that have "resolve_labeling ext conf0 mesh tvs nf g =
        Inl (''failed!'' @ [newline] @ what @ [newline])"
      by (simp add: resolve_labeling_def)
    from early [OF this] show ?thesis by simp
  qed
  have mm: "reconstructTexture ext conf0 inp io = Inr (wrong_labeling @ [newline] @ [newline], io) \<and>
       wrong_labeling @ [newline] @ [newline] \<noteq> []"
    if lf: "labeling_file conf0 \<noteq> []"
      and nv: "\<not> (length L = num_nodes g \<and> (\<forall>l\<in>set L. l \<le> length tvs))"
  proof -
    from nv obtain g' where "load_labeling (length tvs) L g = Mismatch g'"
      using load_labeling_Mismatch_iff [of "length tvs" L g] by blast
    with lf have "resolve_labeling ext conf0 mesh tvs nf g =
        Inl (wrong_labeling @ [newline] @ [newline])"
      by (simp add: resolve_labeling_def L)
    from early [OF this] show ?thesis by simp
  qed
  have 2: "reconstructTexture ext conf0 inp io = Inr (wrong_labeling @ [newline] @ [newline], io) \<and>
       wrong_labeling @ [newline] @ [newline] \<noteq> []"
    if "labeling_file conf0 \<noteq> [] \<and> length L \<noteq> num_nodes g"
    using that mm by simp
  have 3: "reconstructTexture ext conf0 inp io = Inr (wrong_labeling @ [newline] @ [newline], io) \<and>
       wrong_labeling @ [newline] @ [newline] \<noteq> []"
    if "labeling_file conf0 \<noteq> [] \<and> length L = num_nodes g \<and> (\<exists>l\<in>set L. length tvs < l)"
  proof -
    from that have "\<not> (\<forall>l\<in>set L. l \<le> length tvs)" by force
    with that mm show ?thesis by simp
  qed
  have 4: "(\<exists>f. reconstructTexture ext conf0 inp io = Inl f) \<or>
       (\<exists>out. reconstructTexture ext conf0 inp io = Inr ([], out))"
    if c: "(labeling_file conf0 = [] \<and>
        (data_cost_file conf0 = [] \<or>
         (\<exists>dc. tex_load_from_file ext (data_cost_file conf0)
                  (data_costs_init ext nf (length tvs)) = Inr dc))) \<or>
      (labeling_file conf0 \<noteq> [] \<and> length L = num_nodes g \<and>
         (\<forall>l\<in>set L. l \<le> length tvs))"
  proof -
    have "\<exists>r. resolve_labeling ext conf0 mesh tvs nf g = Inr r"
      using c
    proof
      assume "labeling_file conf0 = [] \<and>
        (data_cost_file conf0 = [] \<or>
         (\<exists>dc. tex_load_from_file ext (data_cost_file conf0)
                  (data_costs_init ext nf (length tvs)) = Inr dc))"
      then show ?thesis
        by (auto simp: resolve_labeling_def Let_def split: prod.splits)
    next
      assume v: "labeling_file conf0 \<noteq> [] \<and> length L = num_nodes g \<and>
         (\<forall>l\<in>set L. l \<le> length tvs)"
      then have "\<exists>g'. load_labeling (length tvs) L g = Transferred g'"
        using load_labeling_Transferred_iff [of "length tvs" L g] by blast
      with v show ?thesis by (auto simp: resolve_labeling_def L)
    qed
    with late show ?thesis by blast
  qed
  from 1 2 3 4 show ?thesis by blast
qed

theorem reconstructTexture_result_witness:
  "reconstructTexture ex_ext ex_conf ex_inp ex_io = Inr ([], ex_model) \<and>
   reconstructTexture ex_ext (ex_conf\<lparr>data_cost_file := ''costs.spt''\<rparr>) ex_inp ex_io =
     Inr (''failed!'' @ [newline] @ ''cannot open file'' @ [newline], ex_io) \<and>
   reconstructTexture ex_ext (ex_conf\<lparr>labeling_file := ''labels.vec''\<rparr>) ex_inp ex_io =
     Inr (wrong_labeling @ [newline] @ [newline], ex_io) \<and>
   reconstructTexture ex_ext (ex_conf\<lparr>labeling_file := ''labels.vec''\<rparr>) ex_inp ex_io1 =
     Inr (wrong_labeling @ [newline] @ [newline], ex_io1) \<and>
   wrong_labeling @ [newline] @ [newline] \<noteq> []"
proof -
  have L: "[1, 3] = vector_from_file ex_ext (labeling_file c)" for c
    by (simp add: ex_ext_def)
  note T = reconstructTexture_result [OF ex_prepare ex_views ex_nf ex_graph L]
  have ok: "labeling_file ex_conf = [] \<and> data_cost_file ex_conf = []"
    by (simp add: ex_conf_def)
  from T [of ex_conf] ok
  have "(\<exists>f. reconstructTexture ex_ext ex_conf ex_inp ex_io = Inl f) \<or>
       (\<exists>out. reconstructTexture ex_ext ex_conf ex_inp ex_io = Inr ([], out))"
    by blast
  then have 1: "reconstructTexture ex_ext ex_conf ex_inp ex_io = Inr ([], ex_model)"
    by (simp add: ex_reconstructTexture)
  have c: "labeling_file (ex_conf\<lparr>data_cost_file := ''costs.spt''\<rparr>) = [] \<and>
      data_cost_file (ex_conf\<lparr>data_cost_file := ''costs.spt''\<rparr>) \<noteq> [] \<and>
      tex_load_from_file ex_ext (data_cost_file (ex_conf\<lparr>data_cost_file := ''costs.spt''\<rparr>))
        (data_costs_init ex_ext 2 (length [(), ()])) = Inl ''cannot open file''"
    by (simp add: ex_conf_def ex_ext_def)
  from T [of "ex_conf\<lparr>data_cost_file := ''costs.spt''\<rparr>" "''cannot open file''"] c
  have 2: "reconstructTexture ex_ext (ex_conf\<lparr>data_cost_file := ''costs.spt''\<rparr>) ex_inp ex_io =
     Inr (''failed!'' @ [newline] @ ''cannot open file'' @ [newline], ex_io)"
    by blast
  have l: "labeling_file (ex_conf\<lparr>labeling_file := ''labels.vec''\<rparr>) \<noteq> [] \<and>
      length [1, 3 :: nat] = num_nodes \<lparr>labels = [0, 0], edges = [(0, 1)]\<rparr> \<and>
      (\<exists>l\<in>set [1, 3 :: nat]. length [(), ()] < l)"
    by (simp add: num_nodes_def)
  from T [of "ex_conf\<lparr>labeling_file := ''labels.vec''\<rparr>"] l
  have 3: "reconstructTexture ex_ext (ex_conf\<lparr>labeling_file := ''labels.vec''\<rparr>) ex_inp ex_io =
     Inr (wrong_labeling @ [newline] @ [newline], ex_io) \<and>
     wrong_labeling @ [newline] @ [newline] \<noteq> []"
    by blast
  have p1: "((), copy_mesh ex_io1) =
      tex_prepare_mesh ex_ext (mesh_info_init ex_ext (copy_mesh ex_io1)) (copy_mesh ex_io1)"
    by (simp add: ex_ext_def)
  have n1: "1 = length (mesh_faces (copy_mesh ex_io1)) div 3"
    by (simp add: copy_mesh_def ex_io1_def ex_io_def)
  have g1: "\<lparr>labels = [0], edges = [(0, 1)]\<rparr> =
      tex_build_adjacency_graph ex_ext (copy_mesh ex_io1) () (Graph 1)"
    by (simp add: ex_ext_def Graph_def)
  have l1: "labeling_file (ex_conf\<lparr>labeling_file := ''labels.vec''\<rparr>) \<noteq> [] \<and>
      length [1, 3 :: nat] \<noteq> num_nodes \<lparr>labels = [0], edges = [(0, 1)]\<rparr>"
    by (simp add: num_nodes_def)
  from reconstructTexture_result [OF p1 ex_views n1 g1 L,
      of "ex_conf\<lparr>labeling_file := ''labels.vec''\<rparr>"] l1
  have 4: "reconstructTexture ex_ext (ex_conf\<lparr>labeling_file := ''labels.vec''\<rparr>) ex_inp ex_io1 =
     Inr (wrong_labeling @ [newline] @ [newline], ex_io1)"
    by blast
  from 1 2 3 4 show ?thesis by blast
qed

text \<open>
  Claim C9. The internal mesh is a copy of the in/out parameters \<open>points\<close>, \<open>normals\<close>
  and \<open>triangles\<close>, and the mesh that reaches \<open>build_model\<close> is what \<^verbatim>\<open>prepare_mesh\<close>
  makes of this copy. When no atlas was generated, \<open>reconstructTexture\<close> returns the
  empty string with all parameters as the caller passed them, the input mesh still in
  them. When atlases were generated and it returns, the parameters hold what
  \<open>build_model\<close> computes from the prepared mesh and the atlases, whatever they held
  before: the sizes are those of the first atlas, and the caller's data is gone, as in
  the small scene, where the three arrays differ from the input after the call.
\<close>

theorem reconstructTexture_buffers:
  "(mesh_vertices (copy_mesh io) = points io \<and> mesh_normals (copy_mesh io) = normals io \<and>
    mesh_faces (copy_mesh io) = concat (map (\<lambda>(a, b, c). [a, b, c]) (triangles io))) \<and>
   (run_stages ext conf0 inp io = Inr (mesh, atlases) \<longrightarrow>
      (\<exists>mesh_info. (mesh_info, mesh) =
         tex_prepare_mesh ext (mesh_info_init ext (copy_mesh io)) (copy_mesh io)) \<and>
      (atlases = [] \<longrightarrow> reconstructTexture ext conf0 inp io = Inr ([], io)) \<and>
      (atlases \<noteq> [] \<and> reconstructTexture ext conf0 inp io = Inr (s, out) \<longrightarrow>
         s = [] \<and> build_model mesh atlases any = Inr out \<and>
         length (points out) = length (atlas_texcoords (hd atlases)) \<and>
         length (normals out) = length (atlas_texcoords (hd atlases)) \<and>
         length (triangles out) = length (atlas_faces (hd atlases)))) \<and>
   (reconstructTexture ex_ext ex_conf ex_inp ex_io = Inr ([], ex_model) \<and>
      points ex_model \<noteq> points ex_io \<and> normals ex_model \<noteq> normals ex_io \<and>
      triangles ex_model \<noteq> triangles ex_io)"
proof (intro conjI impI)
  show "mesh_vertices (copy_mesh io) = points io" "mesh_normals (copy_mesh io) = normals io"
    "mesh_faces (copy_mesh io) = concat (map (\<lambda>(a, b, c). [a, b, c]) (triangles io))"
    by (simp_all add: copy_mesh_def)
next
  assume "run_stages ext conf0 inp io = Inr (mesh, atlases)"
  then show "\<exists>mesh_info. (mesh_info, mesh) =
         tex_prepare_mesh ext (mesh_info_init ext (copy_mesh io)) (copy_mesh io)"
    by (rule run_stages_mesh)
next
  assume "run_stages ext conf0 inp io = Inr (mesh, atlases)" "atlases = []"
  then show "reconstructTexture ext conf0 inp io = Inr ([], io)"
    by (simp add: reconstructTexture_def build_model_def)
next
  assume r: "run_stages ext conf0 inp io = Inr (mesh, atlases)"
    and h: "atlases \<noteq> [] \<and> reconstructTexture ext conf0 inp io = Inr (s, out)"
  from h obtain a rest where a: "atlases = a # rest" by (cases atlases) auto
  from h r reconstructTexture_cases [of ext conf0 inp io]
  have s: "s = []" and b: "build_model mesh atlases io = Inr out"
    by auto
  show "s = []" by (rule s)
  from b show b': "build_model mesh atlases any = Inr out"
    by (simp add: a build_model_def)
  from b a have ba: "build_model mesh (a # rest) io = Inr out" by simp
  from ba obtain w h td vs ts m ps ns where
    f: "fetch_corners (mesh_faces mesh) (atlas_texcoord_ids a) 0 (atlas_faces a)
          = Inr (vs, ts)"
    and bm: "build_map (replicate (length (atlas_texcoords a)) 0) 0 (zip ts vs) = Inr m"
    and gp: "gather VerticesReadOOB (mesh_vertices mesh) 0 m = Inr ps"
    and gn: "gather NormalsReadOOB (mesh_normals mesh) 0 m = Inr ns"
    and out: "out = \<lparr>points = ps, normals = ns, texCoords = atlas_texcoords a,
            triangles = ts, textureWidth = w, textureHeight = h, textureData = td\<rparr>"
    by (auto elim: build_model_Inr)
  have len: "length m = length (atlas_texcoords a)"
    using length_build_map [OF bm] by simp
  show "length (points out) = length (atlas_texcoords (hd atlases))"
    using gather_Inr [OF gp] len out a by simp
  show "length (normals out) = length (atlas_texcoords (hd atlases))"
    using gather_Inr [OF gn] len out a by simp
  show "length (triangles out) = length (atlas_faces (hd atlases))"
    using fetch_corners_Inr [OF f] out a by simp
next
  show "reconstructTexture ex_ext ex_conf ex_inp ex_io = Inr ([], ex_model)"
    by (rule ex_reconstructTexture)
  show "points ex_model \<noteq> points ex_io" "normals ex_model \<noteq> normals ex_io"
    "triangles ex_model \<noteq> triangles ex_io"
    by (simp_all add: ex_model_def ex_io_def)
qed

theorem reconstructTexture_buffers_witness:
  "run_stages ex_ext ex_conf ex_inp ex_io = Inr (ex_mesh, [ex_atlas, ex_atlas2]) \<and>
   reconstructTexture ex_ext ex_conf ex_inp ex_io = Inr ([], ex_model) \<and>
   build_model ex_mesh [ex_atlas, ex_atlas2] ex_model = Inr ex_model \<and>
   length (points ex_model) = 6 \<and> length (points ex_io) = 4 \<and>
   length (triangles ex_model) = length (atlas_faces ex_atlas) \<and>
   run_stages ex_ext_no_atlas ex_conf ex_inp ex_io = Inr (ex_mesh, []) \<and>
   reconstructTexture ex_ext_no_atlas ex_conf ex_inp ex_io = Inr ([], ex_io)"
proof -
  note r = ex_run_stages
  note e = ex_reconstructTexture
  have n: "[ex_atlas, ex_atlas2] \<noteq> []" by simp
  from reconstructTexture_buffers [of ex_io ex_ext ex_conf ex_inp ex_mesh
      "[ex_atlas, ex_atlas2]" "[]" ex_model ex_model] r e n
  have 1: "build_model ex_mesh [ex_atlas, ex_atlas2] ex_model = Inr ex_model \<and>
      length (points ex_model) = length (atlas_texcoords (hd [ex_atlas, ex_atlas2])) \<and>
      length (triangles ex_model) = length (atlas_faces (hd [ex_atlas, ex_atlas2]))"
    by blast
  note r0 = ex_run_stages_no_atlas
  from reconstructTexture_buffers [of ex_io ex_ext_no_atlas ex_conf ex_inp ex_mesh "[]"] r0
  have 2: "reconstructTexture ex_ext_no_atlas ex_conf ex_inp ex_io = Inr ([], ex_io)"
    by blast
  have l: "length (atlas_texcoords ex_atlas) = 6" "length (points ex_io) = 4"
    by (simp_all add: ex_atlas_def ex_io_def)
  from 1 2 r e r0 l show ?thesis by simp
qed

end
